theory Spec2Isabelle
  imports Complex_Main
begin

section \<open>Meaning of the symbolic equations around the Hamiltonian\<close>

text \<open>
  The derivation engine \<^verbatim>\<open>Equations\<close> of \<^verbatim>\<open>gme/equations.py\<close> stores symbolic
  equations. In this part an expression is represented by the real function it denotes:
  a symbol is an argument, \<^verbatim>\<open>subs\<close> is application, \<^verbatim>\<open>diff\<close> is the derivative, and
  \<^verbatim>\<open>simplify\<close>, \<^verbatim>\<open>factor\<close> and \<^verbatim>\<open>expand\<close> do not change what an expression denotes.
  The substitution \<^verbatim>\<open>{Abs(px): px, sign(px): 1}\<close> is the identity on the branch
  \<open>p\<^sub>x \<ge> 0\<close> that the source enforces.
\<close>

text \<open>
  A power of the algebra system: \<^verbatim>\<open>x**0\<close> is \<open>1\<close> for every base, and a non-zero
  exponent of a non-negative base is the real power (\<open>0\<close> at base \<open>0\<close>, where a
  negative exponent has no finite value).
\<close>

definition pw :: "real \<Rightarrow> real \<Rightarrow> real" where
  "pw x a = (if a = 0 then 1 else x powr a)"

text \<open>
  \<^verbatim>\<open>diff(e, x)\<close>: the derivative of the function an expression denotes, at the point
  where the symbols are evaluated. It is the derivative wherever one exists
  (\<open>sy_diff_eq\<close> below).
\<close>

definition sy_diff :: "(real \<Rightarrow> real) \<Rightarrow> real \<Rightarrow> real" where
  "sy_diff f x = (THE D. (f has_real_derivative D) (at x))"

text \<open>\<^verbatim>\<open>define_p_eqns\<close>: \<open>p = sqrt (p\<^sub>x\<^sup>2 + p\<^sub>z\<^sup>2)\<close>, \<open>tan \<beta> = - p\<^sub>x / p\<^sub>z\<close>,
  \<open>sin \<beta> = p\<^sub>x / sqrt (p\<^sub>x\<^sup>2 + p\<^sub>z\<^sup>2)\<close>.\<close>

definition p_norm_pxpz_eqn_rhs :: "real \<Rightarrow> real \<Rightarrow> real" where
  "p_norm_pxpz_eqn_rhs px pz = sqrt (px\<^sup>2 + pz\<^sup>2)"

definition tanbeta_pxpz_eqn_rhs :: "real \<Rightarrow> real \<Rightarrow> real" where
  "tanbeta_pxpz_eqn_rhs px pz = - px / pz"

definition sinbeta_pxpz_eqn_rhs :: "real \<Rightarrow> real \<Rightarrow> real" where
  "sinbeta_pxpz_eqn_rhs px pz = px / p_norm_pxpz_eqn_rhs px pz"

text \<open>\<^verbatim>\<open>define_xi_model_eqn\<close>: the erosion model, \<open>\<xi> = \<phi> |sin \<beta>|^\<eta>\<close> when
  \<^verbatim>\<open>beta_type == 'sin'\<close> and \<open>\<xi> = \<phi> |tan \<beta>|^\<eta>\<close> for every other value.\<close>

definition xi_varphi_beta_eqn_rhs :: "string \<Rightarrow> real \<Rightarrow> real \<Rightarrow> real \<Rightarrow> real" where
  "xi_varphi_beta_eqn_rhs beta_type eta varphi_r beta =
     (if beta_type = ''sin'' then varphi_r * pw \<bar>sin beta\<bar> eta
      else varphi_r * pw \<bar>tan beta\<bar> eta)"

text \<open>\<^verbatim>\<open>define_varphi_related_eqns\<close>: \<open>p = 1 / \<xi>\<close> with the model substituted
  (\<^verbatim>\<open>p_varphi_beta_eqn\<close>), then \<open>tan \<beta>\<close> and \<open>sin \<beta>\<close> replaced by their expressions in
  \<open>p\<^sub>x, p\<^sub>z\<close> (\<^verbatim>\<open>p_varphi_pxpz_eqn\<close>, whose left-hand side is \<open>sqrt (p\<^sub>x\<^sup>2 + p\<^sub>z\<^sup>2)\<close>).\<close>

definition p_varphi_beta_eqn_rhs :: "string \<Rightarrow> real \<Rightarrow> real \<Rightarrow> real \<Rightarrow> real" where
  "p_varphi_beta_eqn_rhs beta_type eta varphi_r beta =
     1 / xi_varphi_beta_eqn_rhs beta_type eta varphi_r beta"

definition xi_varphi_pxpz :: "string \<Rightarrow> real \<Rightarrow> real \<Rightarrow> real \<Rightarrow> real \<Rightarrow> real" where
  "xi_varphi_pxpz beta_type eta varphi_r px pz =
     (if beta_type = ''sin'' then varphi_r * pw \<bar>sinbeta_pxpz_eqn_rhs px pz\<bar> eta
      else varphi_r * pw \<bar>tanbeta_pxpz_eqn_rhs px pz\<bar> eta)"

definition p_varphi_pxpz_eqn_rhs :: "string \<Rightarrow> real \<Rightarrow> real \<Rightarrow> real \<Rightarrow> real \<Rightarrow> real" where
  "p_varphi_pxpz_eqn_rhs beta_type eta varphi_r px pz =
     1 / xi_varphi_pxpz beta_type eta varphi_r px pz"

text \<open>\<^verbatim>\<open>define_Fstar_eqns\<close>: the Okubo relation \<open>sqrt (p\<^sub>x\<^sup>2 + p\<^sub>z\<^sup>2) / F = \<close>
  \<^verbatim>\<open>p_varphi_pxpz_eqn.rhs\<close> solved for \<open>F\<close>.\<close>

definition Fstar_eqn_rhs :: "string \<Rightarrow> real \<Rightarrow> real \<Rightarrow> real \<Rightarrow> real \<Rightarrow> real" where
  "Fstar_eqn_rhs beta_type eta varphi_r px pz =
     p_norm_pxpz_eqn_rhs px pz / p_varphi_pxpz_eqn_rhs beta_type eta varphi_r px pz"

text \<open>\<^verbatim>\<open>define_H_eqns\<close>: \<^verbatim>\<open>H_eqn = Eq(H, simplify(Fstar_eqn.rhs**2/2))\<close>.\<close>

definition H_eqn_rhs :: "string \<Rightarrow> real \<Rightarrow> real \<Rightarrow> real \<Rightarrow> real \<Rightarrow> real" where
  "H_eqn_rhs beta_type eta varphi_r px pz = (Fstar_eqn_rhs beta_type eta varphi_r px pz)\<^sup>2 / 2"

text \<open>\<^verbatim>\<open>define_rdot_eqns\<close>: \<^verbatim>\<open>diff(H_eqn.rhs, px)\<close> and \<^verbatim>\<open>diff(H_eqn.rhs, pz)\<close>.\<close>

definition rdotx_pxpz_eqn_rhs :: "string \<Rightarrow> real \<Rightarrow> real \<Rightarrow> real \<Rightarrow> real \<Rightarrow> real" where
  "rdotx_pxpz_eqn_rhs beta_type eta varphi_r px pz =
     sy_diff (\<lambda>q. H_eqn_rhs beta_type eta varphi_r q pz) px"

definition rdotz_pxpz_eqn_rhs :: "string \<Rightarrow> real \<Rightarrow> real \<Rightarrow> real \<Rightarrow> real \<Rightarrow> real" where
  "rdotz_pxpz_eqn_rhs beta_type eta varphi_r px pz =
     sy_diff (\<lambda>q. H_eqn_rhs beta_type eta varphi_r px q) pz"

text \<open>\<^verbatim>\<open>define_pdot_eqns\<close>: the right-hand side of \<^verbatim>\<open>pdotz_pxpz_eqn\<close> is
  \<^verbatim>\<open>0*diff(varphi_rx_eqn.rhs,rx)*(-tanbeta_pxpz_eqn.rhs)*H_eqn.rhs/varphi_r\<close>, where
  \<open>varphi_rx\<close> is the selected flow closure as a function of \<open>r\<^sup>x\<close>.\<close>

definition pdotz_pxpz_eqn_rhs ::
  "(real \<Rightarrow> real) \<Rightarrow> string \<Rightarrow> real \<Rightarrow> real \<Rightarrow> real \<Rightarrow> real \<Rightarrow> real \<Rightarrow> real" where
  "pdotz_pxpz_eqn_rhs varphi_rx beta_type eta varphi_r px pz rx =
     0 * sy_diff varphi_rx rx * (- tanbeta_pxpz_eqn_rhs px pz)
       * H_eqn_rhs beta_type eta varphi_r px pz / varphi_r"

text \<open>
  \<^verbatim>\<open>p_varphi_pxpz_eqn\<close> as a relation on values: a point satisfies the closure when the
  right-hand side has a value (the erosion speed it divides by is not zero; a quotient by
  zero is \<open>0\<close> in HOL and has no finite value in the source) and both sides agree.
\<close>

definition p_varphi_pxpz_eqn_holds :: "string \<Rightarrow> real \<Rightarrow> real \<Rightarrow> real \<Rightarrow> real \<Rightarrow> bool" where
  "p_varphi_pxpz_eqn_holds beta_type eta varphi_r px pz \<longleftrightarrow>
     xi_varphi_pxpz beta_type eta varphi_r px pz \<noteq> 0 \<and>
     p_norm_pxpz_eqn_rhs px pz = p_varphi_pxpz_eqn_rhs beta_type eta varphi_r px pz"

text \<open>\<^verbatim>\<open>define_varphi_model_eqn\<close>: the ramp closure
  \<^verbatim>\<open>varphi_0*((x/x_1)**(mu*2) + varepsilon)\<close> with \<^verbatim>\<open>x\<close> replaced by \<^verbatim>\<open>x_1-rx\<close>.\<close>

definition varphi_model_ramp_eqn_rhs :: "real \<Rightarrow> real \<Rightarrow> real \<Rightarrow> real \<Rightarrow> real \<Rightarrow> real" where
  "varphi_model_ramp_eqn_rhs varphi_0 x_1 mu_val varepsilon rx =
     varphi_0 * (pw ((x_1 - rx) / x_1) (mu_val * 2) + varepsilon)"

section \<open>The derivation pipeline\<close>

text \<open>
  In this part the instance is the dictionary of its attributes together with what it has
  printed. A stage assigns attributes; what matters here is which attributes a stage
  assigns, whether it assigns \<^verbatim>\<open>None\<close>, which root it selects, what it prints and where
  it raises. Reading an attribute assigned by an earlier stage is not modelled as a
  failure: \<^verbatim>\<open>__init__\<close> runs every stage after the stages it reads from. The algebra
  operations (\<^verbatim>\<open>simplify\<close>, \<^verbatim>\<open>diff\<close>, \<^verbatim>\<open>solve\<close>, ...) are taken to return; the failures
  modelled are the ones the source itself can cause: indexing an empty list of solutions,
  looking up a missing dictionary key, raising \<^verbatim>\<open>ValueError\<close>, and substituting with
  \<^verbatim>\<open>None\<close>.
\<close>

text \<open>A root is an algebraic expression returned by the solver, named by its text.\<close>

type_synonym root = string

datatype flow_closure = Ramp | RampFlat | RampFlatMu

text \<open>
  The value of an attribute: \<^verbatim>\<open>None\<close>; a symbolic result whose form no stage branches
  on; one of the three flow closures; an equation whose right-hand side is a root of a
  solved equation; the numerical rendering of such a root; an equation whose right-hand
  side is \<open>0\<close>; a list of roots; a Python \<^verbatim>\<open>lambda\<close>; a function made by \<^verbatim>\<open>lambdify\<close>;
  an integer.
\<close>

datatype val =
    NoneV
  | Expr
  | Closure flow_closure
  | Root root
  | Numeric root
  | Zero
  | Roots "root list"
  | Lambda
  | Lambdified
  | IntV int

text \<open>
  What the stages print (the source writes the model and the exponent in TeX):
  \<^item> \<open>RealPositiveRootNotFound\<close>: \<^verbatim>\<open>Warning: real positive root for beta not found\<close>
  \<^item> \<open>CannotComputeBeta\<close>: cannot compute all \<open>\<beta>\<close> equations for the \<open>sin \<beta>\<close> model and
    \<open>\<eta> = 1\<close>
  \<^item> \<open>CannotComputeMetric\<close>: cannot compute all metric tensor equations for the \<open>sin \<beta>\<close>
    model and \<open>\<eta> = 1\<close>
  \<^item> \<open>CannotComputeIndicatrix eta\<close>: cannot compute all indicatrix equations for the
    \<open>tan \<beta>\<close> model and this \<open>\<eta>\<close>
  \<^item> \<open>CannotComputeGeodesic\<close>: cannot compute geodesic equations for the \<open>sin \<beta>\<close> model
    and \<open>\<eta> \<ge> 1\<close>
\<close>

datatype diagnostic =
    RealPositiveRootNotFound
  | CannotComputeBeta
  | CannotComputeMetric
  | CannotComputeIndicatrix rat
  | CannotComputeGeodesic

text \<open>
  \<open>BadSubstitution\<close> is the exception of \<^verbatim>\<open>subs(None)\<close>: the substitution takes a
  dictionary or an iterable of pairs and rejects \<^verbatim>\<open>None\<close> (with a \<^verbatim>\<open>ValueError\<close> or a
  \<^verbatim>\<open>TypeError\<close>, depending on the version of the algebra library).
\<close>

datatype error = ValueError string | IndexError | KeyError string | BadSubstitution

record config =
  parameters :: "(string \<rightharpoonup> rat) option"
  eta :: rat
  mu :: rat
  beta_type :: string
  varphi_type :: string
  ibc_type :: string
  do_raw :: bool
  do_idtx :: bool
  do_geodesic :: bool
  do_nothing :: bool

record state =
  attrs :: "string \<rightharpoonup> val"
  out :: "diagnostic list"

text \<open>A stage returns the instance, or raises: then the error comes with the instance as
  the stage left it.\<close>

type_synonym result = "(error \<times> state) + state"

definition final :: "result \<Rightarrow> state" where
  "final r = (case r of Inl (e, s) \<Rightarrow> s | Inr s \<Rightarrow> s)"

text \<open>
  The answers of the algebra system that the stages branch on, in one construction:
  \<^item> \<open>alpha_extrema\<close>: the simplified solutions for \<open>\<beta>\<close> of \<open>d tan \<alpha> / d \<beta> = 0\<close>;
  \<^item> \<open>real_positive e\<close>: \<^verbatim>\<open>im(e.subs(eta_sub))==0 and e.subs(eta_sub)>0\<close>;
  \<^item> \<open>tanbeta_solns\<close>: the solutions for \<open>tan \<beta>\<close> of \<^verbatim>\<open>tanalpha_beta_eqn\<close>;
  \<^item> \<open>real_at r t\<close>: \<^verbatim>\<open>im(r.subs(ta,t).subs(eta_sub))==0\<close>;
  \<^item> \<open>cosbetasqrd_solns\<close>: the solutions for \<open>cos\<^sup>2 \<beta>\<close> of \<^verbatim>\<open>pz_cosbeta_varphi_eqn\<close>;
  \<^item> \<open>real_nonneg_at r (varphi, pz)\<close>: at that probe,
    \<^verbatim>\<open>Abs(im(N(r.subs(sub))))<1e-20 and re(N(r.subs(sub)))>=0\<close>;
  \<^item> \<open>tanbeta_poly_solns\<close>: the solutions for \<open>tan \<beta>\<close> of \<^verbatim>\<open>tanbeta_poly_eqn\<close>.
\<close>

record cas =
  alpha_extrema :: "root list"
  real_positive :: "root \<Rightarrow> bool"
  tanbeta_solns :: "root list"
  real_at :: "root \<Rightarrow> rat \<Rightarrow> bool"
  cosbetasqrd_solns :: "root list"
  real_nonneg_at :: "root \<Rightarrow> rat \<times> rat \<Rightarrow> bool"
  tanbeta_poly_solns :: "root list"

definition assign :: "string \<Rightarrow> val \<Rightarrow> state \<Rightarrow> state" where
  "assign k v s = s\<lparr>attrs := (attrs s)(k \<mapsto> v)\<rparr>"

definition assign_all :: "string list \<Rightarrow> val \<Rightarrow> state \<Rightarrow> state" where
  "assign_all ks v s = s\<lparr>attrs := (\<lambda>k. if k \<in> set ks then Some v else attrs s k)\<rparr>"

definition py_print :: "diagnostic \<Rightarrow> state \<Rightarrow> state" where
  "py_print d s = s\<lparr>out := out s @ [d]\<rparr>"

subsection \<open>Stages that only derive\<close>

definition define_p_eqns :: "state \<Rightarrow> state" where
  "define_p_eqns = assign_all
     [''p_covec_eqn'', ''px_p_beta_eqn'', ''pz_p_beta_eqn'', ''p_norm_pxpz_eqn'',
      ''tanbeta_pxpz_eqn'', ''sinbeta_pxpz_eqn'', ''cosbeta_pxpz_eqn'', ''pz_px_tanbeta_eqn'',
      ''px_pz_tanbeta_eqn'', ''p_pz_cosbeta_eqn''] Expr"

definition define_r_eqns :: "state \<Rightarrow> state" where
  "define_r_eqns = assign_all [''rx_r_alpha_eqn'', ''rz_r_alpha_eqn''] Expr"

definition define_xi_eqns :: "state \<Rightarrow> state" where
  "define_xi_eqns = assign_all [''xi_p_eqn'', ''xiv_pz_eqn'', ''p_xi_eqn'', ''pz_xiv_eqn''] Expr"

definition define_xi_model_eqn :: "state \<Rightarrow> state" where
  "define_xi_model_eqn = assign ''xi_varphi_beta_eqn'' Expr"

text \<open>\<^verbatim>\<open>eta_dbldenom = 2*denom(self.eta)\<close>.\<close>

definition define_xi_related_eqns :: "config \<Rightarrow> state \<Rightarrow> state" where
  "define_xi_related_eqns cfg s =
     assign ''eta_dbldenom'' (IntV (2 * snd (quotient_of (eta cfg))))
       (assign_all [''xiv_varphi_pxpz_eqn'', ''px_xiv_varphi_eqn''] Expr s)"

definition define_varphi_related_eqns :: "state \<Rightarrow> state" where
  "define_varphi_related_eqns = assign_all
     [''p_varphi_beta_eqn'', ''p_varphi_pxpz_eqn'', ''p_rx_pxpz_eqn'', ''p_rx_tanbeta_eqn'',
      ''px_beta_eqn'', ''pz_beta_eqn'', ''xiv_pxpz_eqn'', ''pz_varphi_beta_eqn'',
      ''px_varphi_beta_eqn'', ''pz_varphi_rx_beta_eqn'', ''px_varphi_rx_beta_eqn''] Expr"

definition define_Fstar_eqns :: "state \<Rightarrow> state" where
  "define_Fstar_eqns = assign_all [''Okubo_Fstar_eqn'', ''Fstar_eqn''] Expr"

definition define_H_eqns :: "state \<Rightarrow> state" where
  "define_H_eqns = assign_all [''H_eqn'', ''H_varphi_rx_eqn''] Expr"

definition define_rdot_eqns :: "state \<Rightarrow> state" where
  "define_rdot_eqns = assign_all
     [''rdotx_rdot_alpha_eqn'', ''rdotz_rdot_alpha_eqn'', ''rdotx_pxpz_eqn'', ''rdotz_pxpz_eqn'',
      ''rdotz_on_rdotx_eqn'', ''rdotz_on_rdotx_tanbeta_eqn'', ''rdot_vec_eqn'',
      ''rdot_p_unity_eqn''] Expr"

definition define_pdot_eqns :: "state \<Rightarrow> state" where
  "define_pdot_eqns = assign_all [''pdotx_pxpz_eqn'', ''pdotz_pxpz_eqn'', ''pdot_covec_eqn''] Expr"

definition define_Hamiltons_eqns :: "state \<Rightarrow> state" where
  "define_Hamiltons_eqns = assign ''hamiltons_eqns'' Expr"

definition define_tanalpha_eqns :: "state \<Rightarrow> state" where
  "define_tanalpha_eqns = assign_all
     [''tanalpha_rdot_eqn'', ''tanalpha_pxpz_eqn'', ''tanalpha_beta_eqn''] Expr"

text \<open>\<^verbatim>\<open>define_px_poly_eqn\<close>: the polynomial is taken from the left-hand side when
  \<open>\<eta> \<le> 1\<close> and from its numerator otherwise; both are symbolic results.\<close>

definition define_px_poly_eqn :: "config \<Rightarrow> rat option \<Rightarrow> state \<Rightarrow> state" where
  "define_px_poly_eqn cfg eta_choice s =
     (let eta_used = (case eta_choice of None \<Rightarrow> eta cfg | Some e \<Rightarrow> e);
          s1 = (if eta_used \<le> 1 then assign ''poly_px_xiv_varphi_eqn'' Expr s
                else assign ''poly_px_xiv_varphi_eqn'' Expr s)
      in assign ''poly_px_xiv0_eqn'' Expr s1)"

definition prep_ibc_eqns :: "state \<Rightarrow> state" where
  "prep_ibc_eqns = assign_all [''pz0_xiv0_eqn'', ''pzpx_unity_eqn''] Expr"

definition define_ibc_eqns :: "state \<Rightarrow> state" where
  "define_ibc_eqns = assign ''boundary_eqns'' Expr"

text \<open>\<^verbatim>\<open>set_ibc_eqns\<close> looks \<^verbatim>\<open>self.ibc_type\<close> up in \<^verbatim>\<open>boundary_eqns\<close>, whose keys are
  \<^verbatim>\<open>'planar'\<close>, \<^verbatim>\<open>'convex-up'\<close> and \<^verbatim>\<open>'concave-up'\<close>.\<close>

definition set_ibc_eqns :: "config \<Rightarrow> state \<Rightarrow> result" where
  "set_ibc_eqns cfg s =
     (if ibc_type cfg \<in> set [''planar'', ''convex-up'', ''concave-up'']
      then Inr (assign_all [''rz_initial_eqn'', ''tanbeta_initial_eqn'', ''p_initial_eqn'',
                            ''px_initial_eqn'', ''pz_initial_eqn''] Expr s)
      else Inl (KeyError (ibc_type cfg), s))"

subsection \<open>Stages that branch\<close>

text \<open>\<^verbatim>\<open>define_varphi_model_eqn\<close>: the four model equations are built first
  (\<^verbatim>\<open>varphi_model_rampmu_chi0_eqn\<close> is the same expression as
  \<^verbatim>\<open>varphi_model_ramp_eqn\<close>), then one is chosen.\<close>

definition define_varphi_model_eqn :: "config \<Rightarrow> state \<Rightarrow> result" where
  "define_varphi_model_eqn cfg s =
     (let s1 = assign ''varphi_model_ramp_eqn'' (Closure Ramp) s;
          s2 = assign ''varphi_model_rampmu_chi0_eqn'' (Closure Ramp) s1;
          s3 = assign ''varphi_model_rampflat_eqn'' (Closure RampFlat) s2;
          s4 = assign ''varphi_model_rampflatmu_eqn'' (Closure RampFlatMu) s3
      in if varphi_type cfg = ''ramp'' then Inr (assign ''varphi_rx_eqn'' (Closure Ramp) s4)
         else if varphi_type cfg = ''ramp-flat'' then
           (if mu cfg = 1 / 2 then Inr (assign ''varphi_rx_eqn'' (Closure RampFlat) s4)
            else Inr (assign ''varphi_rx_eqn'' (Closure RampFlatMu) s4))
         else Inl (ValueError ''Unknown flow model'', s4))"

text \<open>\<^verbatim>\<open>define_tanbeta_eqns\<close>. The comprehension with \<^verbatim>\<open>[0]\<close> raises \<^verbatim>\<open>IndexError\<close> when
  no solution passes the test.\<close>

definition real_at_probes :: "cas \<Rightarrow> root \<Rightarrow> bool" where
  "real_at_probes c r \<longleftrightarrow> real_at c r 0 \<or> real_at c r (1 / 100) \<or> real_at c r 1"

definition define_tanbeta_eqns :: "cas \<Rightarrow> config \<Rightarrow> bool \<Rightarrow> state \<Rightarrow> result" where
  "define_tanbeta_eqns c cfg do_find_extrema s =
     (let s0 = assign ''tanbeta_alpha_eqn'' NoneV
                 (assign ''beta_at_alpha_extremum_numerical_eqn'' NoneV
                   (assign ''beta_at_alpha_extremum_eqn'' NoneV s));
          alpha_extrema_real_positive = filter (real_positive c) (alpha_extrema c);
          s1 = (if do_find_extrema then
                  (if alpha_extrema_real_positive \<noteq> [] then
                     assign ''beta_at_alpha_extremum_numerical_eqn''
                         (Numeric (hd alpha_extrema_real_positive))
                       (assign ''beta_at_alpha_extremum_eqn''
                         (Root (hd alpha_extrema_real_positive)) s0)
                   else if alpha_extrema c \<noteq> [] then
                     py_print RealPositiveRootNotFound
                       (assign ''beta_at_alpha_extremum_numerical_eqn''
                           (Numeric (hd (alpha_extrema c)))
                         (assign ''beta_at_alpha_extremum_eqn'' (Root (hd (alpha_extrema c))) s0))
                   else
                     assign ''beta_at_alpha_extremum_numerical_eqn'' Zero
                       (assign ''beta_at_alpha_extremum_eqn'' Zero s0))
                else s0)
      in if eta cfg = 1 \<and> beta_type cfg = ''sin'' then Inr (py_print CannotComputeBeta s1)
         else (case filter (real_at_probes c) (tanbeta_solns c) of
                 [] \<Rightarrow> Inl (IndexError, s1)
               | r # rs \<Rightarrow> Inr (assign ''tanbeta_alpha_eqn'' (Root r) s1)))"

text \<open>\<^verbatim>\<open>define_g_eqns\<close>. It first sets its six attributes to \<^verbatim>\<open>None\<close>.\<close>

definition g_attrs :: "string list" where
  "g_attrs = [''gstar_varphi_pxpz_eqn'', ''det_gstar_varphi_pxpz_eqn'', ''g_varphi_pxpz_eqn'',
              ''gstar_eigen_varphi_pxpz'', ''gstar_eigenvalues'', ''gstar_eigenvectors'']"

definition define_g_eqns :: "config \<Rightarrow> state \<Rightarrow> state" where
  "define_g_eqns cfg s =
     (let s0 = assign_all g_attrs NoneV s;
          s1 = assign ''gstar_varphi_pxpz_eqn'' Expr s0;
          s2 = assign ''det_gstar_varphi_pxpz_eqn'' Expr s1
      in if eta cfg = 1 \<and> beta_type cfg = ''sin'' then py_print CannotComputeMetric s2
         else assign ''gstar_eigenvectors'' Expr
                (assign ''gstar_eigenvalues'' Expr
                  (assign ''gstar_eigen_varphi_pxpz'' Expr
                    (assign ''g_varphi_pxpz_eqn'' Expr s2))))"

text \<open>\<^verbatim>\<open>define_idtx_fgtx_eqns\<close>. The probes are \<^verbatim>\<open>{varphi:1,pz:-0.01}\<close> and
  \<^verbatim>\<open>{varphi:10,pz:-0.5}\<close>.\<close>

definition find_cosbetasqrd_root :: "cas \<Rightarrow> rat \<times> rat \<Rightarrow> root list" where
  "find_cosbetasqrd_root c sub = filter (\<lambda>soln. real_nonneg_at c soln sub) (cosbetasqrd_solns c)"

text \<open>The attributes the stage sets to \<^verbatim>\<open>None\<close> after \<^verbatim>\<open>pz_cosbeta_varphi_eqn\<close>.\<close>

definition idtx_fgtx_attrs :: "string list" where
  "idtx_fgtx_attrs = [''cosbetasqrd_pz_varphi_solns'', ''cosbetasqrd_pz_varphi_soln'',
                      ''fgtx_cossqrdbeta_pz_varphi_eqn'', ''fgtx_tanbeta_pz_varphi_eqn'',
                      ''fgtx_px_pz_varphi_eqn'', ''idtx_rdotx_pz_varphi_eqn'',
                      ''idtx_rdotz_pz_varphi_eqn'']"

definition define_idtx_fgtx_eqns :: "cas \<Rightarrow> config \<Rightarrow> state \<Rightarrow> result" where
  "define_idtx_fgtx_eqns c cfg s =
     (let s1 = assign ''pz_cosbeta_varphi_eqn'' Expr s;
          s2 = assign_all idtx_fgtx_attrs NoneV s1;
          s3 = assign ''cosbetasqrd_pz_varphi_solns'' (Roots (cosbetasqrd_solns c)) s2
      in if (eta cfg = 1 / 4 \<or> eta cfg = 3 / 2) \<and> beta_type cfg = ''tan''
         then Inr (py_print (CannotComputeIndicatrix (eta cfg)) s3)
         else
           (let soln1 = find_cosbetasqrd_root c (1, - (1 / 100));
                soln = (if soln1 = [] then find_cosbetasqrd_root c (10, - (1 / 2)) else soln1);
                s4 = assign ''cosbetasqrd_pz_varphi_soln'' (Roots soln) s3
            in case soln of
                 [] \<Rightarrow> Inl (IndexError, s4)
               | r # rs \<Rightarrow>
                   Inr (assign_all [''fgtx_tanbeta_pz_varphi_eqn'', ''fgtx_px_pz_varphi_eqn'',
                                    ''idtx_rdotx_pz_varphi_eqn'', ''idtx_rdotz_pz_varphi_eqn''] Expr
                         (assign ''fgtx_cossqrdbeta_pz_varphi_eqn'' (Root r) s4))))"

text \<open>\<^verbatim>\<open>prep_geodesic_eqns\<close>. The guard \<^verbatim>\<open>if parameters is None: return\<close> is commented
  out in the source, so \<^verbatim>\<open>.subs(parameters)\<close> is reached with \<^verbatim>\<open>None\<close>.\<close>

definition prep_geodesic_attrs :: "string list" where
  "prep_geodesic_attrs = [''gstar_ij_tanbeta_mat'', ''g_ij_tanbeta_mat'', ''tanbeta_poly_eqn'',
                          ''tanbeta_eqn'', ''gstar_ij_tanalpha_mat'', ''gstar_ij_mat'',
                          ''g_ij_tanalpha_mat'', ''g_ij_mat'', ''g_ij_mat_lambdified'',
                          ''gstar_ij_mat_lambdified'']"

definition prep_geodesic_eqns :: "cas \<Rightarrow> config \<Rightarrow> (string \<rightharpoonup> rat) option \<Rightarrow> state \<Rightarrow> result" where
  "prep_geodesic_eqns c cfg params s =
     (let s0 = assign_all prep_geodesic_attrs NoneV s
      in if eta cfg \<ge> 1 \<and> beta_type cfg = ''sin'' then Inr (py_print CannotComputeGeodesic s0)
         else
           (let s1 = assign_all [''gstar_ij_tanbeta_mat'', ''g_ij_tanbeta_mat''] Expr s0
            in case tanbeta_poly_solns c of
                 [] \<Rightarrow> Inl (IndexError, s1)
               | r # rs \<Rightarrow>
                   (let s2 = assign ''gstar_ij_tanalpha_mat'' Expr
                               (assign ''tanbeta_eqn'' (Root r)
                                 (assign ''tanbeta_poly_eqn'' Expr s1))
                    in case params of
                         None \<Rightarrow> Inl (BadSubstitution, s2)
                       | Some ps \<Rightarrow>
                           Inr (assign_all [''g_ij_mat_lambdified'', ''gstar_ij_mat_lambdified'']
                                  Lambdified
                                 (assign_all [''gstar_ij_mat'', ''g_ij_tanalpha_mat'', ''g_ij_mat'']
                                    Expr s2)))))"

text \<open>\<^verbatim>\<open>define_geodesic_eqns\<close>; its argument \<^verbatim>\<open>parameters\<close> is not used.\<close>

definition define_geodesic_attrs :: "string list" where
  "define_geodesic_attrs = [''dg_rk_ij_mat'', ''christoffel_ij_k_rx_rdot_lambda'',
                            ''christoffel_ij_k_lambda'', ''geodesic_eqns'', ''vdotx_lambdified'',
                            ''vdotz_lambdified'']"

definition define_geodesic_eqns :: "config \<Rightarrow> (string \<rightharpoonup> rat) option \<Rightarrow> state \<Rightarrow> state" where
  "define_geodesic_eqns cfg params s =
     (let s0 = assign_all define_geodesic_attrs NoneV s
      in if eta cfg \<ge> 1 \<and> beta_type cfg = ''sin'' then py_print CannotComputeGeodesic s0
         else assign_all [''vdotx_lambdified'', ''vdotz_lambdified''] Lambdified
                (assign ''geodesic_eqns'' Expr
                  (assign_all [''christoffel_ij_k_rx_rdot_lambda'', ''christoffel_ij_k_lambda'']
                     Lambda
                    (assign ''dg_rk_ij_mat'' Expr s0))))"

subsection \<open>Construction\<close>

fun run :: "(state \<Rightarrow> result) list \<Rightarrow> state \<Rightarrow> result" where
  "run [] s = Inr s"
| "run (stage # stages) s = (case stage s of Inl e \<Rightarrow> Inl e | Inr s' \<Rightarrow> run stages s')"

definition returns :: "(state \<Rightarrow> state) \<Rightarrow> state \<Rightarrow> result" where
  "returns stage s = Inr (stage s)"

definition new_instance :: state where
  "new_instance = \<lparr>attrs = Map.empty, out = []\<rparr>"

text \<open>\<^verbatim>\<open>__init__\<close>. The geodesic stages get \<^verbatim>\<open>parameters if not do_raw else None\<close>.\<close>

definition init :: "cas \<Rightarrow> config \<Rightarrow> result" where
  "init c cfg =
     (if do_nothing cfg then Inr new_instance
      else run
        ([returns define_p_eqns,
          returns define_r_eqns,
          returns define_xi_eqns,
          returns define_xi_model_eqn,
          returns (define_xi_related_eqns cfg),
          define_varphi_model_eqn cfg,
          returns define_varphi_related_eqns,
          returns define_Fstar_eqns,
          returns define_H_eqns,
          returns define_rdot_eqns,
          returns define_pdot_eqns,
          returns define_Hamiltons_eqns,
          returns define_tanalpha_eqns,
          define_tanbeta_eqns c cfg True,
          returns (define_g_eqns cfg)]
         @ (if do_idtx cfg then [define_idtx_fgtx_eqns c cfg] else [])
         @ (if do_geodesic cfg then
              [prep_geodesic_eqns c cfg (if \<not> do_raw cfg then parameters cfg else None),
               returns (define_geodesic_eqns cfg (if \<not> do_raw cfg then parameters cfg else None))]
            else [])
         @ [returns (define_px_poly_eqn cfg None),
            returns prep_ibc_eqns,
            returns define_ibc_eqns,
            set_ibc_eqns cfg])
        new_instance)"

text \<open>The error a stage raised, if it raised.\<close>

definition raised :: "result \<Rightarrow> error option" where
  "raised r = (case r of Inl (e, s) \<Rightarrow> Some e | Inr s \<Rightarrow> None)"

subsection \<open>Example inputs\<close>

text \<open>
  The defaults of \<^verbatim>\<open>__init__\<close>, and two examples of answers of the algebra system.
  \<open>example_cas\<close> has the shape documented for the default configuration: the stationary
  angles \<open>\<plusminus> atan (sqrt \<eta>)\<close>; the two roots of the quadratic for \<open>tan \<beta>\<close>, which
  divide by \<open>ta\<close> and whose discriminant \<open>D = \<eta>\<^sup>2 - 4 \<eta> ta\<^sup>2 - 2 \<eta> + 1\<close> is positive at
  \<open>ta = 0.01\<close> and negative at \<open>ta = 1\<close> (for \<open>\<eta> = 3/2\<close> it is \<open>1/4 - 6 ta\<^sup>2\<close>); three roots of
  the cubic for \<open>cos\<^sup>2 \<beta>\<close>, one of them real and non-negative at the first probe.
  The same signs of the discriminant hold for \<open>\<eta> = 1/2\<close>, where it is \<open>1/4 - 2 ta\<^sup>2\<close>.
  \<open>eta0_cas\<close> has the shape of \<open>\<eta> = 0\<close>, where \<open>tan \<alpha> = - 1 / tan \<beta>\<close> has no stationary
  point and each equation has one root. \<open>eta1_cas\<close> has the shape of \<open>\<eta> = 1\<close> with the sine
  model, where \<open>F = p\<^sub>x \<phi>\<close> and \<open>tan \<alpha> = 0\<close>: no stationary point, no solution for \<open>tan \<beta>\<close>, one
  root for \<open>cos\<^sup>2 \<beta>\<close>. \<open>probe_cas\<close> tells the solutions for \<open>tan \<beta>\<close> apart by where they are real:
  the first at none of the probe values \<open>0, 0.01, 1\<close>, the second at \<open>0.01\<close> only, the third at
  all three.
\<close>

definition default_config :: config where
  "default_config = \<lparr>parameters = None, eta = 3 / 2, mu = 3 / 4, beta_type = ''sin'',
     varphi_type = ''ramp'', ibc_type = ''convex-up'', do_raw = False, do_idtx = False,
     do_geodesic = False, do_nothing = False\<rparr>"

definition example_cas :: cas where
  "example_cas = \<lparr>
     alpha_extrema = [''-atan(sqrt(eta))'', ''atan(sqrt(eta))''],
     real_positive = (\<lambda>e. e = ''atan(sqrt(eta))''),
     tanbeta_solns = [''(eta - sqrt(D) - 1)/(2*ta)'', ''(eta + sqrt(D) - 1)/(2*ta)''],
     real_at = (\<lambda>r t. t = 1 / 100),
     cosbetasqrd_solns = [''c1'', ''c2'', ''c3''],
     real_nonneg_at = (\<lambda>r sub. r = ''c2'' \<and> sub = (1, - (1 / 100))),
     tanbeta_poly_solns = [''(eta - sqrt(D) - 1)/(2*ta)'', ''(eta + sqrt(D) - 1)/(2*ta)'']\<rparr>"

definition eta0_cas :: cas where
  "eta0_cas = \<lparr>
     alpha_extrema = [],
     real_positive = (\<lambda>e. False),
     tanbeta_solns = [''-1/ta''],
     real_at = (\<lambda>r t. t \<noteq> 0),
     cosbetasqrd_solns = [''pz**2*varphi**2''],
     real_nonneg_at = (\<lambda>r sub. True),
     tanbeta_poly_solns = [''-1/ta'']\<rparr>"

definition eta1_cas :: cas where
  "eta1_cas = \<lparr>
     alpha_extrema = [],
     real_positive = (\<lambda>e. False),
     tanbeta_solns = [],
     real_at = (\<lambda>r t. False),
     cosbetasqrd_solns = [''pz**2*varphi**2/(pz**2*varphi**2 + 1)''],
     real_nonneg_at = (\<lambda>r sub. True),
     tanbeta_poly_solns = []\<rparr>"


section \<open>Theorems\<close>

subsection \<open>The Hamiltonian equations\<close>

text \<open>
  C1. For every tilt model, every exponent, every flow closure and every value of the
  symbols, the right-hand side of \<^verbatim>\<open>pdotz_pxpz_eqn\<close> is zero: the slowness rate has no
  \<open>z\<close>-component.
\<close>

theorem pdotz_pxpz_eqn_zero:
  "pdotz_pxpz_eqn_rhs varphi_rx tilt \<eta> varphi_r px pz rx = 0"
  by (simp add: pdotz_pxpz_eqn_rhs_def)

text \<open>\<^verbatim>\<open>diff\<close> is the derivative wherever the expression has one.\<close>

lemma sy_diff_eq: "(f has_real_derivative D) (at x) \<Longrightarrow> sy_diff f x = D"
  unfolding sy_diff_def by (rule the_equality) (auto intro: DERIV_unique)

lemma pw_powr: "a \<noteq> 0 \<Longrightarrow> pw x a = x powr a"
  by (simp add: pw_def)

lemma powr_square: "(x powr e)\<^sup>2 = x powr (2 * e)" for x e :: real
  by (simp add: power2_eq_square flip: powr_add)

lemma sqrt_powr: "0 \<le> s \<Longrightarrow> sqrt s powr (2 * e) = s powr e" for s e :: real
  by (simp add: powr_powr flip: powr_half_sqrt)

lemma abs_powr_sq: "\<bar>z\<bar> powr (2 * e) = (z\<^sup>2) powr e" for z e :: real
  using sqrt_powr[of "z\<^sup>2" e] by simp

text \<open>The Hamiltonian and the fundamental function in closed form: for the sine model they
  are the expressions of the docstrings of \<^verbatim>\<open>define_H_eqns\<close> and \<^verbatim>\<open>define_Fstar_eqns\<close>.\<close>

lemma H_sin_form:
  assumes "0 < px" "\<eta> \<noteq> 0"
  shows "H_eqn_rhs ''sin'' \<eta> varphi_r px pz
         = varphi_r\<^sup>2 / 2 * (px powr (2 * \<eta>) * (px\<^sup>2 + pz\<^sup>2) powr (1 - \<eta>))"
proof -
  define s where "s = px\<^sup>2 + pz\<^sup>2"
  have s: "0 < s" using assms by (simp add: s_def add_pos_nonneg)
  have F: "Fstar_eqn_rhs ''sin'' \<eta> varphi_r px pz = sqrt s * (varphi_r * (px / sqrt s) powr \<eta>)"
    using assms s by (simp add: Fstar_eqn_rhs_def p_varphi_pxpz_eqn_rhs_def xi_varphi_pxpz_def
        sinbeta_pxpz_eqn_rhs_def p_norm_pxpz_eqn_rhs_def pw_powr s_def)
  have "(sqrt s * (varphi_r * (px / sqrt s) powr \<eta>))\<^sup>2
        = s * varphi_r\<^sup>2 * ((px / sqrt s) powr \<eta>)\<^sup>2"
    using s by (simp add: power_mult_distrib)
  also have "((px / sqrt s) powr \<eta>)\<^sup>2 = px powr (2 * \<eta>) / s powr \<eta>"
  proof -
    have "((px / sqrt s) powr \<eta>)\<^sup>2 = (px / sqrt s) powr (2 * \<eta>)" by (rule powr_square)
    also have "\<dots> = px powr (2 * \<eta>) / sqrt s powr (2 * \<eta>)"
      using assms s by (simp add: powr_divide)
    also have "\<dots> = px powr (2 * \<eta>) / s powr \<eta>"
      using s by (simp add: sqrt_powr)
    finally show ?thesis .
  qed
  also have "s * varphi_r\<^sup>2 * (px powr (2 * \<eta>) / s powr \<eta>)
       = varphi_r\<^sup>2 * (px powr (2 * \<eta>) * s powr (1 - \<eta>))"
    using s by (simp add: powr_diff)
  finally show ?thesis by (simp add: H_eqn_rhs_def F s_def)
qed

lemma Fstar_sin_form:
  assumes "0 < px" "\<eta> \<noteq> 0"
  shows "Fstar_eqn_rhs ''sin'' \<eta> varphi_r px pz
         = px powr \<eta> * (px\<^sup>2 + pz\<^sup>2) powr (1 / 2 - \<eta> / 2) * varphi_r"
proof -
  define s where "s = px\<^sup>2 + pz\<^sup>2"
  have s: "0 < s" using assms by (simp add: s_def add_pos_nonneg)
  have "Fstar_eqn_rhs ''sin'' \<eta> varphi_r px pz = sqrt s * (varphi_r * (px / sqrt s) powr \<eta>)"
    using assms s by (simp add: Fstar_eqn_rhs_def p_varphi_pxpz_eqn_rhs_def xi_varphi_pxpz_def
        sinbeta_pxpz_eqn_rhs_def p_norm_pxpz_eqn_rhs_def pw_powr s_def)
  also have "(px / sqrt s) powr \<eta> = px powr \<eta> / s powr (\<eta> / 2)"
    using assms s sqrt_powr [of s "\<eta> / 2"] by (simp add: powr_divide)
  also have "sqrt s * (varphi_r * (px powr \<eta> / s powr (\<eta> / 2)))
        = px powr \<eta> * (s powr (1 / 2) / s powr (\<eta> / 2)) * varphi_r"
    using s by (simp add: powr_half_sqrt)
  also have "s powr (1 / 2) / s powr (\<eta> / 2) = s powr (1 / 2 - \<eta> / 2)"
    by (simp add: powr_diff)
  finally show ?thesis by (simp add: s_def)
qed

lemma H_tan_form:
  assumes "0 < px" "\<eta> \<noteq> 0" "pz \<noteq> 0" "tilt \<noteq> ''sin''"
  shows "H_eqn_rhs tilt \<eta> varphi_r px pz
         = varphi_r\<^sup>2 / 2 * ((px\<^sup>2 + pz\<^sup>2) * (px powr (2 * \<eta>) * (pz\<^sup>2) powr (- \<eta>)))"
proof -
  define s where "s = px\<^sup>2 + pz\<^sup>2"
  have s: "0 < s" using assms by (simp add: s_def add_pos_nonneg)
  have F: "Fstar_eqn_rhs tilt \<eta> varphi_r px pz = sqrt s * (varphi_r * (px / \<bar>pz\<bar>) powr \<eta>)"
    using assms s by (simp add: Fstar_eqn_rhs_def p_varphi_pxpz_eqn_rhs_def xi_varphi_pxpz_def
        tanbeta_pxpz_eqn_rhs_def p_norm_pxpz_eqn_rhs_def pw_powr s_def)
  have "(sqrt s * (varphi_r * (px / \<bar>pz\<bar>) powr \<eta>))\<^sup>2
        = s * varphi_r\<^sup>2 * ((px / \<bar>pz\<bar>) powr \<eta>)\<^sup>2"
    using s by (simp add: power_mult_distrib)
  also have "((px / \<bar>pz\<bar>) powr \<eta>)\<^sup>2 = px powr (2 * \<eta>) * (pz\<^sup>2) powr (- \<eta>)"
  proof -
    have "((px / \<bar>pz\<bar>) powr \<eta>)\<^sup>2 = (px / \<bar>pz\<bar>) powr (2 * \<eta>)" by (rule powr_square)
    also have "\<dots> = px powr (2 * \<eta>) / \<bar>pz\<bar> powr (2 * \<eta>)"
      using assms by (simp add: powr_divide)
    also have "\<dots> = px powr (2 * \<eta>) * (pz\<^sup>2) powr (- \<eta>)"
      by (simp add: abs_powr_sq powr_minus divide_inverse)
    finally show ?thesis .
  qed
  finally show ?thesis by (simp add: H_eqn_rhs_def F s_def)
qed

lemma H_eta0: "H_eqn_rhs tilt 0 varphi_r px pz = varphi_r\<^sup>2 / 2 * (px\<^sup>2 + pz\<^sup>2)"
  by (simp add: H_eqn_rhs_def Fstar_eqn_rhs_def p_varphi_pxpz_eqn_rhs_def xi_varphi_pxpz_def
      p_norm_pxpz_eqn_rhs_def pw_def power_mult_distrib)

lemma deriv_sin_px:
  fixes c a b z px :: real
  assumes "0 < px"
  shows "((\<lambda>q. c * (q powr a * (q\<^sup>2 + z\<^sup>2) powr b)) has_real_derivative
          c * (a * (px powr a / px) * (px\<^sup>2 + z\<^sup>2) powr b
               + px powr a * (b * ((px\<^sup>2 + z\<^sup>2) powr b / (px\<^sup>2 + z\<^sup>2)) * (2 * px)))) (at px)"
proof -
  have s: "0 < px\<^sup>2 + z\<^sup>2" using assms by (simp add: add_pos_nonneg)
  show ?thesis
    using assms s
    by (auto intro!: derivative_eq_intros simp: powr_diff field_simps)
qed

lemma deriv_sin_pz:
  fixes c A b z px :: real
  assumes "0 < px"
  shows "((\<lambda>q. c * (A * (px\<^sup>2 + q\<^sup>2) powr b)) has_real_derivative
          c * (A * (b * ((px\<^sup>2 + z\<^sup>2) powr b / (px\<^sup>2 + z\<^sup>2)) * (2 * z)))) (at z)"
proof -
  have s: "0 < px\<^sup>2 + z\<^sup>2" using assms by (simp add: add_pos_nonneg)
  show ?thesis
    using assms s
    by (auto intro!: derivative_eq_intros simp: powr_diff field_simps)
qed


lemma deriv_tan_px:
  fixes c a B z px :: real
  assumes "0 < px"
  shows "((\<lambda>q. c * ((q\<^sup>2 + z\<^sup>2) * (q powr a * B))) has_real_derivative
          c * (2 * px * (px powr a * B) + (px\<^sup>2 + z\<^sup>2) * (a * (px powr a / px) * B))) (at px)"
  using assms by (auto intro!: derivative_eq_intros simp: powr_diff field_simps)

lemma deriv_tan_pz:
  fixes c A b z px :: real
  assumes "z \<noteq> 0"
  shows "((\<lambda>q. c * ((px\<^sup>2 + q\<^sup>2) * (A * (q\<^sup>2) powr b))) has_real_derivative
          c * (2 * z * (A * (z\<^sup>2) powr b)
               + (px\<^sup>2 + z\<^sup>2) * (A * (b * ((z\<^sup>2) powr b / z\<^sup>2) * (2 * z))))) (at z)"
  using assms by (auto intro!: derivative_eq_intros simp: powr_diff field_simps)


lemma H_derivs_eta0:
  "\<exists>Dx Dz. ((\<lambda>q. H_eqn_rhs tilt 0 varphi_r q pz) has_real_derivative Dx) (at px)
     \<and> ((\<lambda>q. H_eqn_rhs tilt 0 varphi_r px q) has_real_derivative Dz) (at pz)
     \<and> px * Dx + pz * Dz = 2 * H_eqn_rhs tilt 0 varphi_r px pz"
proof (intro exI conjI)
  show "((\<lambda>q. H_eqn_rhs tilt 0 varphi_r q pz) has_real_derivative varphi_r\<^sup>2 / 2 * (2 * px)) (at px)"
    unfolding H_eta0 by (auto intro!: derivative_eq_intros)
  show "((\<lambda>q. H_eqn_rhs tilt 0 varphi_r px q) has_real_derivative varphi_r\<^sup>2 / 2 * (2 * pz)) (at pz)"
    unfolding H_eta0 by (auto intro!: derivative_eq_intros)
  show "px * (varphi_r\<^sup>2 / 2 * (2 * px)) + pz * (varphi_r\<^sup>2 / 2 * (2 * pz))
        = 2 * H_eqn_rhs tilt 0 varphi_r px pz"
    unfolding H_eta0 by (simp add: power2_eq_square algebra_simps)
qed

lemma H_derivs_sin:
  assumes px: "0 < px" and eta0: "\<eta> \<noteq> 0"
  shows "\<exists>Dx Dz. ((\<lambda>q. H_eqn_rhs ''sin'' \<eta> varphi_r q pz) has_real_derivative Dx) (at px)
     \<and> ((\<lambda>q. H_eqn_rhs ''sin'' \<eta> varphi_r px q) has_real_derivative Dz) (at pz)
     \<and> px * Dx + pz * Dz = 2 * H_eqn_rhs ''sin'' \<eta> varphi_r px pz"
proof -
  define c where "c = varphi_r\<^sup>2 / 2"
  define s where "s = px\<^sup>2 + pz\<^sup>2"
  define A where "A = px powr (2 * \<eta>)"
  define B where "B = s powr (1 - \<eta>)"
  define Dx where "Dx = c * (2 * \<eta> * (A / px) * B + A * ((1 - \<eta>) * (B / s) * (2 * px)))"
  define Dz where "Dz = c * (A * ((1 - \<eta>) * (B / s) * (2 * pz)))"
  have s: "0 < s" using px by (simp add: s_def add_pos_nonneg)
  have "((\<lambda>q. c * (q powr (2 * \<eta>) * (q\<^sup>2 + pz\<^sup>2) powr (1 - \<eta>))) has_real_derivative Dx) (at px)"
    unfolding Dx_def A_def B_def s_def by (rule deriv_sin_px [OF px])
  then have dx: "((\<lambda>q. H_eqn_rhs ''sin'' \<eta> varphi_r q pz) has_real_derivative Dx) (at px)"
    by (rule has_field_derivative_transform_within_open [where S = "{0<..}"])
       (use px eta0 in \<open>simp_all add: H_sin_form c_def\<close>)
  have "((\<lambda>q. c * (A * (px\<^sup>2 + q\<^sup>2) powr (1 - \<eta>))) has_real_derivative Dz) (at pz)"
    unfolding Dz_def B_def s_def by (rule deriv_sin_pz [OF px])
  then have dz: "((\<lambda>q. H_eqn_rhs ''sin'' \<eta> varphi_r px q) has_real_derivative Dz) (at pz)"
    using px eta0 by (simp add: H_sin_form c_def A_def)
  have H: "H_eqn_rhs ''sin'' \<eta> varphi_r px pz = c * (A * B)"
    using px eta0 by (simp add: H_sin_form c_def A_def B_def s_def)
  have "px * Dx + pz * Dz = c * (A * B) * (2 * \<eta> + (1 - \<eta>) * (2 * ((px\<^sup>2 + pz\<^sup>2) / s)))"
    using px s unfolding Dx_def Dz_def by (simp add: field_simps power2_eq_square)
  moreover have "(px\<^sup>2 + pz\<^sup>2) / s = 1" using s by (simp flip: s_def)
  ultimately have "px * Dx + pz * Dz = 2 * H_eqn_rhs ''sin'' \<eta> varphi_r px pz"
    by (simp add: H algebra_simps)
  with dx dz show ?thesis by blast
qed

lemma H_derivs_tan:
  assumes px: "0 < px" and eta0: "\<eta> \<noteq> 0" and pz: "pz \<noteq> 0" and bt: "tilt \<noteq> ''sin''"
  shows "\<exists>Dx Dz. ((\<lambda>q. H_eqn_rhs tilt \<eta> varphi_r q pz) has_real_derivative Dx) (at px)
     \<and> ((\<lambda>q. H_eqn_rhs tilt \<eta> varphi_r px q) has_real_derivative Dz) (at pz)
     \<and> px * Dx + pz * Dz = 2 * H_eqn_rhs tilt \<eta> varphi_r px pz"
proof -
  define c where "c = varphi_r\<^sup>2 / 2"
  define s where "s = px\<^sup>2 + pz\<^sup>2"
  define A where "A = px powr (2 * \<eta>)"
  define B where "B = (pz\<^sup>2) powr (- \<eta>)"
  define Dx where "Dx = c * (2 * px * (A * B) + s * (2 * \<eta> * (A / px) * B))"
  define Dz where "Dz = c * (2 * pz * (A * B) + s * (A * (- \<eta> * (B / pz\<^sup>2) * (2 * pz))))"
  have "((\<lambda>q. c * ((q\<^sup>2 + pz\<^sup>2) * (q powr (2 * \<eta>) * B))) has_real_derivative Dx) (at px)"
    unfolding Dx_def A_def s_def by (rule deriv_tan_px [OF px])
  then have dx: "((\<lambda>q. H_eqn_rhs tilt \<eta> varphi_r q pz) has_real_derivative Dx) (at px)"
    by (rule has_field_derivative_transform_within_open [where S = "{0<..}"])
       (use px eta0 pz bt in \<open>simp_all add: H_tan_form c_def B_def\<close>)
  have "((\<lambda>q. c * ((px\<^sup>2 + q\<^sup>2) * (A * (q\<^sup>2) powr (- \<eta>)))) has_real_derivative Dz) (at pz)"
    unfolding Dz_def B_def s_def by (rule deriv_tan_pz [OF pz])
  then have dz: "((\<lambda>q. H_eqn_rhs tilt \<eta> varphi_r px q) has_real_derivative Dz) (at pz)"
    by (rule has_field_derivative_transform_within_open [where S = "- {0}"])
       (use px eta0 pz bt in \<open>simp_all add: H_tan_form c_def A_def open_Compl\<close>)
  have H: "H_eqn_rhs tilt \<eta> varphi_r px pz = c * (s * (A * B))"
    using px eta0 pz bt by (simp add: H_tan_form c_def A_def B_def s_def)
  have "px * Dx + pz * Dz = c * (A * B) * (2 * (px\<^sup>2 + pz\<^sup>2))"
    using px pz unfolding Dx_def Dz_def by (simp add: field_simps power2_eq_square)
  then have "px * Dx + pz * Dz = 2 * H_eqn_rhs tilt \<eta> varphi_r px pz"
    by (simp add: H s_def algebra_simps)
  with dx dz show ?thesis by blast
qed


text \<open>For the sine model the two velocity components are the expressions of the docstring
  of \<^verbatim>\<open>define_rdot_eqns\<close>.\<close>

lemma rdot_eqns_documented:
  assumes px: "0 < px" and eta0: "\<eta> \<noteq> 0"
  shows "rdotx_pxpz_eqn_rhs ''sin'' \<eta> varphi_r px pz
         = px powr (2 * \<eta> - 1) * (px\<^sup>2 + pz\<^sup>2) powr (- \<eta>) * (\<eta> * pz\<^sup>2 + px\<^sup>2) * varphi_r\<^sup>2"
    and "rdotz_pxpz_eqn_rhs ''sin'' \<eta> varphi_r px pz
         = - (px powr (2 * \<eta>)) * pz * (\<eta> - 1) * (px\<^sup>2 + pz\<^sup>2) powr (- \<eta>) * varphi_r\<^sup>2"
proof -
  define c where "c = varphi_r\<^sup>2 / 2"
  define s where "s = px\<^sup>2 + pz\<^sup>2"
  define A where "A = px powr (2 * \<eta>)"
  define B where "B = s powr (1 - \<eta>)"
  have s: "0 < s" using px by (simp add: s_def add_pos_nonneg)
  have A1: "px powr (2 * \<eta> - 1) = A / px"
    using px by (simp add: A_def powr_diff)
  have B1: "s powr (- \<eta>) = B / s"
    using s powr_diff [of s "1 - \<eta>" 1] by (simp add: B_def)
  have "((\<lambda>q. c * (q powr (2 * \<eta>) * (q\<^sup>2 + pz\<^sup>2) powr (1 - \<eta>))) has_real_derivative
          c * (2 * \<eta> * (A / px) * B + A * ((1 - \<eta>) * (B / s) * (2 * px)))) (at px)"
    unfolding A_def B_def s_def by (rule deriv_sin_px [OF px])
  then have "((\<lambda>q. H_eqn_rhs ''sin'' \<eta> varphi_r q pz) has_real_derivative
          c * (2 * \<eta> * (A / px) * B + A * ((1 - \<eta>) * (B / s) * (2 * px)))) (at px)"
    by (rule has_field_derivative_transform_within_open [where S = "{0<..}"])
       (use px eta0 in \<open>simp_all add: H_sin_form c_def\<close>)
  then have "rdotx_pxpz_eqn_rhs ''sin'' \<eta> varphi_r px pz
        = c * (2 * \<eta> * (A / px) * B + A * ((1 - \<eta>) * (B / s) * (2 * px)))"
    unfolding rdotx_pxpz_eqn_rhs_def by (rule sy_diff_eq)
  also have "\<dots> = A / px * (B / s) * (\<eta> * pz\<^sup>2 + px\<^sup>2) * varphi_r\<^sup>2"
    using px s by (simp add: c_def field_simps) (simp add: s_def power2_eq_square algebra_simps)
  finally show "rdotx_pxpz_eqn_rhs ''sin'' \<eta> varphi_r px pz
         = px powr (2 * \<eta> - 1) * (px\<^sup>2 + pz\<^sup>2) powr (- \<eta>) * (\<eta> * pz\<^sup>2 + px\<^sup>2) * varphi_r\<^sup>2"
    by (simp add: A1 B1 flip: s_def)
  have "((\<lambda>q. c * (A * (px\<^sup>2 + q\<^sup>2) powr (1 - \<eta>))) has_real_derivative
          c * (A * ((1 - \<eta>) * (B / s) * (2 * pz)))) (at pz)"
    unfolding B_def s_def by (rule deriv_sin_pz [OF px])
  then have "((\<lambda>q. H_eqn_rhs ''sin'' \<eta> varphi_r px q) has_real_derivative
          c * (A * ((1 - \<eta>) * (B / s) * (2 * pz)))) (at pz)"
    using px eta0 by (simp add: H_sin_form c_def A_def)
  then have "rdotz_pxpz_eqn_rhs ''sin'' \<eta> varphi_r px pz
        = c * (A * ((1 - \<eta>) * (B / s) * (2 * pz)))"
    unfolding rdotz_pxpz_eqn_rhs_def by (rule sy_diff_eq)
  also have "\<dots> = - A * pz * (\<eta> - 1) * (B / s) * varphi_r\<^sup>2"
    using s by (simp add: c_def field_simps)
  finally show "rdotz_pxpz_eqn_rhs ''sin'' \<eta> varphi_r px pz
         = - (px powr (2 * \<eta>)) * pz * (\<eta> - 1) * (px\<^sup>2 + pz\<^sup>2) powr (- \<eta>) * varphi_r\<^sup>2"
    by (simp add: A_def B1 flip: s_def)
qed

text \<open>The substitution of \<open>sin \<beta>\<close> and \<open>tan \<beta>\<close> in the model: on \<open>p\<^sub>x = p sin \<beta>\<close>,
  \<open>p\<^sub>z = - p cos \<beta>\<close> the erosion speed in terms of \<open>(p\<^sub>x, p\<^sub>z)\<close> is the one in terms of \<open>\<beta>\<close>.\<close>

lemma xi_varphi_pxpz_subst:
  assumes "0 < p" "cos beta \<noteq> 0"
  shows "xi_varphi_pxpz tilt \<eta> varphi_r (p * sin beta) (- p * cos beta)
         = xi_varphi_beta_eqn_rhs tilt \<eta> varphi_r beta"
proof -
  have "(p * sin beta)\<^sup>2 + (- p * cos beta)\<^sup>2 = p\<^sup>2 * (sin beta)\<^sup>2 + p\<^sup>2 * (cos beta)\<^sup>2"
    by (simp add: power_mult_distrib)
  also have "\<dots> = p\<^sup>2 * ((sin beta)\<^sup>2 + (cos beta)\<^sup>2)"
    by (simp only: distrib_left)
  also have "\<dots> = p\<^sup>2" by simp
  finally have "sqrt ((p * sin beta)\<^sup>2 + (- p * cos beta)\<^sup>2) = p"
    using assms by simp
  then show ?thesis
    using assms
    by (simp add: xi_varphi_pxpz_def xi_varphi_beta_eqn_rhs_def sinbeta_pxpz_eqn_rhs_def
        p_norm_pxpz_eqn_rhs_def tanbeta_pxpz_eqn_rhs_def tan_def)
qed

lemma H_derivs:
  assumes "\<eta> = 0 \<or> (0 < px \<and> (tilt = ''sin'' \<or> pz \<noteq> 0))"
  shows "\<exists>Dx Dz. ((\<lambda>q. H_eqn_rhs tilt \<eta> varphi_r q pz) has_real_derivative Dx) (at px)
     \<and> ((\<lambda>q. H_eqn_rhs tilt \<eta> varphi_r px q) has_real_derivative Dz) (at pz)
     \<and> px * Dx + pz * Dz = 2 * H_eqn_rhs tilt \<eta> varphi_r px pz"
proof (cases "\<eta> = 0")
  case True
  then show ?thesis using H_derivs_eta0 by simp
next
  case False
  with assms have px: "0 < px" and pz: "tilt = ''sin'' \<or> pz \<noteq> 0" by auto
  show ?thesis
  proof (cases "tilt = ''sin''")
    case True
    then show ?thesis using H_derivs_sin [OF px False] by simp
  next
    case bt: False
    with pz have "pz \<noteq> 0" by simp
    then show ?thesis using H_derivs_tan [OF px False _ bt] by simp
  qed
qed

lemma rdot_eqns_derivs:
  assumes "\<eta> = 0 \<or> (0 < px \<and> (tilt = ''sin'' \<or> pz \<noteq> 0))"
  shows "((\<lambda>q. H_eqn_rhs tilt \<eta> varphi_r q pz) has_real_derivative
            rdotx_pxpz_eqn_rhs tilt \<eta> varphi_r px pz) (at px)"
    and "((\<lambda>q. H_eqn_rhs tilt \<eta> varphi_r px q) has_real_derivative
            rdotz_pxpz_eqn_rhs tilt \<eta> varphi_r px pz) (at pz)"
    and "px * rdotx_pxpz_eqn_rhs tilt \<eta> varphi_r px pz
         + pz * rdotz_pxpz_eqn_rhs tilt \<eta> varphi_r px pz
         = 2 * H_eqn_rhs tilt \<eta> varphi_r px pz"
proof -
  from H_derivs [OF assms] obtain Dx Dz where
    dx: "((\<lambda>q. H_eqn_rhs tilt \<eta> varphi_r q pz) has_real_derivative Dx) (at px)" and
    dz: "((\<lambda>q. H_eqn_rhs tilt \<eta> varphi_r px q) has_real_derivative Dz) (at pz)" and
    e: "px * Dx + pz * Dz = 2 * H_eqn_rhs tilt \<eta> varphi_r px pz"
    by blast
  have x: "rdotx_pxpz_eqn_rhs tilt \<eta> varphi_r px pz = Dx"
    unfolding rdotx_pxpz_eqn_rhs_def by (rule sy_diff_eq [OF dx])
  have z: "rdotz_pxpz_eqn_rhs tilt \<eta> varphi_r px pz = Dz"
    unfolding rdotz_pxpz_eqn_rhs_def by (rule sy_diff_eq [OF dz])
  show "((\<lambda>q. H_eqn_rhs tilt \<eta> varphi_r q pz) has_real_derivative
            rdotx_pxpz_eqn_rhs tilt \<eta> varphi_r px pz) (at px)"
    using dx x by simp
  show "((\<lambda>q. H_eqn_rhs tilt \<eta> varphi_r px q) has_real_derivative
            rdotz_pxpz_eqn_rhs tilt \<eta> varphi_r px pz) (at pz)"
    using dz z by simp
  show "px * rdotx_pxpz_eqn_rhs tilt \<eta> varphi_r px pz
         + pz * rdotz_pxpz_eqn_rhs tilt \<eta> varphi_r px pz
         = 2 * H_eqn_rhs tilt \<eta> varphi_r px pz"
    using e x z by simp
qed

lemma closure_domain:
  assumes "0 \<le> px" and "xi_varphi_pxpz tilt \<eta> varphi_r px pz \<noteq> 0"
  shows "\<eta> = 0 \<or> (0 < px \<and> (tilt = ''sin'' \<or> pz \<noteq> 0))"
proof (cases "\<eta> = 0")
  case True
  then show ?thesis by simp
next
  case False
  have "px \<noteq> 0"
    using assms(2) False
    by (auto simp: xi_varphi_pxpz_def sinbeta_pxpz_eqn_rhs_def tanbeta_pxpz_eqn_rhs_def pw_def
        split: if_splits)
  moreover have "tilt = ''sin'' \<or> pz \<noteq> 0"
    using assms(2) False
    by (auto simp: xi_varphi_pxpz_def tanbeta_pxpz_eqn_rhs_def pw_def split: if_splits)
  ultimately show ?thesis using assms(1) by simp
qed

lemma Fstar_on_closure:
  assumes "p_varphi_pxpz_eqn_holds tilt \<eta> varphi_r px pz"
  shows "Fstar_eqn_rhs tilt \<eta> varphi_r px pz = 1"
  using assms
  by (simp add: p_varphi_pxpz_eqn_holds_def Fstar_eqn_rhs_def p_varphi_pxpz_eqn_rhs_def)

text \<open>
  C3. The stored Hamiltonian is half the square of the stored fundamental function, and the
  right-hand sides of \<^verbatim>\<open>rdotx_pxpz_eqn\<close> and \<^verbatim>\<open>rdotz_pxpz_eqn\<close> are the partial
  derivatives of that Hamiltonian with respect to \<open>p\<^sub>x\<close> and \<open>p\<^sub>z\<close>: for both tilt models,
  every exponent and every value of the flow multiplier, at every point of the branch
  \<open>p\<^sub>x > 0\<close> (with \<open>p\<^sub>z \<noteq> 0\<close> for the tangent model, which divides by \<open>p\<^sub>z\<close>).
\<close>

theorem Hamiltonian_and_ray_velocity:
  assumes "0 < px" and "tilt \<noteq> ''sin'' \<longrightarrow> pz \<noteq> 0"
  shows "H_eqn_rhs tilt \<eta> varphi_r px pz = (Fstar_eqn_rhs tilt \<eta> varphi_r px pz)\<^sup>2 / 2
     \<and> ((\<lambda>q. H_eqn_rhs tilt \<eta> varphi_r q pz) has_real_derivative
            rdotx_pxpz_eqn_rhs tilt \<eta> varphi_r px pz) (at px)
     \<and> ((\<lambda>q. H_eqn_rhs tilt \<eta> varphi_r px q) has_real_derivative
            rdotz_pxpz_eqn_rhs tilt \<eta> varphi_r px pz) (at pz)"
proof -
  have dom: "\<eta> = 0 \<or> (0 < px \<and> (tilt = ''sin'' \<or> pz \<noteq> 0))"
    using assms by auto
  show ?thesis
    using rdot_eqns_derivs(1,2) [OF dom] by (simp add: H_eqn_rhs_def)
qed

theorem Hamiltonian_and_ray_velocity_witness:
  "(0::real) < 2 \<and> ''tan'' \<noteq> ''sin'' \<and> (-1::real) \<noteq> 0
     \<and> H_eqn_rhs ''tan'' (3/2) 5 2 (-1) = (Fstar_eqn_rhs ''tan'' (3/2) 5 2 (-1))\<^sup>2 / 2
     \<and> ((\<lambda>q. H_eqn_rhs ''tan'' (3/2) 5 q (-1)) has_real_derivative
            rdotx_pxpz_eqn_rhs ''tan'' (3/2) 5 2 (-1)) (at 2)
     \<and> ((\<lambda>q. H_eqn_rhs ''tan'' (3/2) 5 2 q) has_real_derivative
            rdotz_pxpz_eqn_rhs ''tan'' (3/2) 5 2 (-1)) (at (-1))"
  using Hamiltonian_and_ray_velocity [where px = 2 and pz = "-1" and tilt = "''tan''"
      and \<eta> = "3/2" and varphi_r = 5]
  by simp

lemma rdot_p_unity_aux:
  assumes "0 \<le> px" and "p_varphi_pxpz_eqn_holds tilt \<eta> varphi_r px pz"
  shows "px * rdotx_pxpz_eqn_rhs tilt \<eta> varphi_r px pz
         + pz * rdotz_pxpz_eqn_rhs tilt \<eta> varphi_r px pz = 1"
proof -
  have "xi_varphi_pxpz tilt \<eta> varphi_r px pz \<noteq> 0"
    using assms(2) by (simp add: p_varphi_pxpz_eqn_holds_def)
  then have dom: "\<eta> = 0 \<or> (0 < px \<and> (tilt = ''sin'' \<or> pz \<noteq> 0))"
    by (rule closure_domain [OF assms(1)])
  have "px * rdotx_pxpz_eqn_rhs tilt \<eta> varphi_r px pz
         + pz * rdotz_pxpz_eqn_rhs tilt \<eta> varphi_r px pz
        = 2 * H_eqn_rhs tilt \<eta> varphi_r px pz"
    by (rule rdot_eqns_derivs(3) [OF dom])
  also have "\<dots> = 1"
    by (simp add: H_eqn_rhs_def Fstar_on_closure [OF assms(2)])
  finally show ?thesis .
qed


text \<open>
  C2. At every \<open>(p\<^sub>x, p\<^sub>z, r\<^sup>x)\<close> with \<open>p\<^sub>x \<ge> 0\<close> that satisfies the closure
  \<^verbatim>\<open>p_varphi_pxpz_eqn\<close>, the flow closure being evaluated at \<open>r\<^sup>x\<close>, the velocity components
  of \<^verbatim>\<open>define_rdot_eqns\<close> satisfy \<open>p\<^sub>x v\<^sup>x + p\<^sub>z v\<^sup>z = 1\<close>, for both tilt models, every
  exponent and every flow closure.
\<close>

theorem rdot_p_unity:
  assumes "0 \<le> px" and "p_varphi_pxpz_eqn_holds tilt \<eta> (varphi_rx rx) px pz"
  shows "px * rdotx_pxpz_eqn_rhs tilt \<eta> (varphi_rx rx) px pz
         + pz * rdotz_pxpz_eqn_rhs tilt \<eta> (varphi_rx rx) px pz = 1"
  using assms by (rule rdot_p_unity_aux)

theorem rdot_p_unity_witness:
  "(0::real) \<le> 3
   \<and> p_varphi_pxpz_eqn_holds ''sin'' 1 (varphi_model_ramp_eqn_rhs (1/3) 1 (3/4) 0 0) 3 (-4)
   \<and> 3 * rdotx_pxpz_eqn_rhs ''sin'' 1 (varphi_model_ramp_eqn_rhs (1/3) 1 (3/4) 0 0) 3 (-4)
       + (-4) * rdotz_pxpz_eqn_rhs ''sin'' 1 (varphi_model_ramp_eqn_rhs (1/3) 1 (3/4) 0 0) 3 (-4)
       = 1"
proof -
  have v: "varphi_model_ramp_eqn_rhs (1/3) 1 (3/4) 0 0 = 1/3"
    by (simp add: varphi_model_ramp_eqn_rhs_def pw_def)
  have "sqrt (25::real) = 5" by (rule real_sqrt_unique) simp_all
  then have h: "p_varphi_pxpz_eqn_holds ''sin'' 1 (varphi_model_ramp_eqn_rhs (1/3) 1 (3/4) 0 0) 3 (-4)"
    unfolding v
    by (simp add: p_varphi_pxpz_eqn_holds_def xi_varphi_pxpz_def p_varphi_pxpz_eqn_rhs_def
        sinbeta_pxpz_eqn_rhs_def p_norm_pxpz_eqn_rhs_def pw_def)
  show ?thesis
    using h rdot_p_unity [where px = 3 and pz = "-4" and tilt = "''sin''" and \<eta> = 1
        and varphi_rx = "varphi_model_ramp_eqn_rhs (1/3) 1 (3/4) 0" and rx = 0]
    by simp
qed

subsection \<open>Assignments, printing and running stages\<close>

lemma attrs_assign [simp]: "attrs (assign k v s) = (attrs s)(k \<mapsto> v)"
  by (simp add: assign_def)

lemma out_assign [simp]: "out (assign k v s) = out s"
  by (simp add: assign_def)

lemma attrs_assign_all [simp]:
  "attrs (assign_all ks v s) k = (if k \<in> set ks then Some v else attrs s k)"
  by (simp add: assign_all_def)

lemma out_assign_all [simp]: "out (assign_all ks v s) = out s"
  by (simp add: assign_all_def)

lemma attrs_py_print [simp]: "attrs (py_print d s) = attrs s"
  by (simp add: py_print_def)

lemma out_py_print [simp]: "out (py_print d s) = out s @ [d]"
  by (simp add: py_print_def)

lemma run_append:
  "run (xs @ ys) s = (case run xs s of Inl e \<Rightarrow> Inl e | Inr s' \<Rightarrow> run ys s')"
  by (induction xs arbitrary: s) (auto split: sum.splits)


lemma run_returns: "run (returns f # fs) s = run fs (f s)"
  by (simp add: returns_def)

lemma run_Inr: "stage s = Inr s' \<Longrightarrow> run (stage # fs) s = run fs s'"
  by simp

text \<open>The attributes of the geodesic stages.\<close>

lemmas geodesic_attrs = prep_geodesic_attrs_def define_geodesic_attrs_def




subsection \<open>What each stage leaves untouched\<close>

text \<open>The attributes followed through the construction: the inverse relation, the metric
  attributes and the attributes of the two geodesic stages.\<close>

lemma first_stages:
  "out (define_xi_related_eqns cfg (define_xi_model_eqn (define_xi_eqns (define_r_eqns
          (define_p_eqns s))))) = out s"
  "\<forall>k \<in> set (prep_geodesic_attrs @ define_geodesic_attrs).
     attrs (define_xi_related_eqns cfg (define_xi_model_eqn (define_xi_eqns (define_r_eqns
          (define_p_eqns s))))) k = attrs s k"
  by (simp_all add: define_xi_related_eqns_def define_xi_model_eqn_def define_xi_eqns_def
      define_r_eqns_def define_p_eqns_def geodesic_attrs)

lemma middle_stages:
  "out (define_tanalpha_eqns (define_Hamiltons_eqns (define_pdot_eqns (define_rdot_eqns
          (define_H_eqns (define_Fstar_eqns (define_varphi_related_eqns s))))))) = out s"
  "\<forall>k \<in> set (prep_geodesic_attrs @ define_geodesic_attrs).
     attrs (define_tanalpha_eqns (define_Hamiltons_eqns (define_pdot_eqns (define_rdot_eqns
          (define_H_eqns (define_Fstar_eqns (define_varphi_related_eqns s))))))) k = attrs s k"
  by (simp_all add: define_tanalpha_eqns_def define_Hamiltons_eqns_def define_pdot_eqns_def
      define_rdot_eqns_def define_H_eqns_def define_Fstar_eqns_def define_varphi_related_eqns_def
      geodesic_attrs)

lemma varphi_model_known:
  assumes "varphi_type cfg = ''ramp'' \<or> varphi_type cfg = ''ramp-flat''"
  shows "\<exists>s'. define_varphi_model_eqn cfg s = Inr s' \<and> out s' = out s
           \<and> (\<forall>k \<in> set (prep_geodesic_attrs @ define_geodesic_attrs). attrs s' k = attrs s k)"
  using assms by (auto simp: define_varphi_model_eqn_def Let_def geodesic_attrs)

lemma tanbeta_eta1_sine:
  assumes "eta cfg = 1" "beta_type cfg = ''sin''"
  shows "\<exists>s'. define_tanbeta_eqns c cfg b s = Inr s'
           \<and> attrs s' ''tanbeta_alpha_eqn'' = Some NoneV
           \<and> out s' = out s
                @ (if b \<and> filter (real_positive c) (alpha_extrema c) = [] \<and> alpha_extrema c \<noteq> []
                   then [RealPositiveRootNotFound] else [])
                @ [CannotComputeBeta]
           \<and> (\<forall>k \<in> set (prep_geodesic_attrs @ define_geodesic_attrs). attrs s' k = attrs s k)"
  using assms by (simp add: define_tanbeta_eqns_def Let_def geodesic_attrs)

lemma g_eqns_frame:
  "attrs (define_g_eqns cfg s) ''tanbeta_alpha_eqn'' = attrs s ''tanbeta_alpha_eqn''"
  "\<forall>k \<in> set (prep_geodesic_attrs @ define_geodesic_attrs).
     attrs (define_g_eqns cfg s) k = attrs s k"
  by (simp_all add: define_g_eqns_def Let_def g_attrs_def geodesic_attrs)

lemma g_eqns_eta1_sine:
  assumes "eta cfg = 1" "beta_type cfg = ''sin''"
  shows "attrs (define_g_eqns cfg s) ''gstar_varphi_pxpz_eqn'' = Some Expr"
    and "attrs (define_g_eqns cfg s) ''det_gstar_varphi_pxpz_eqn'' = Some Expr"
    and "attrs (define_g_eqns cfg s) ''g_varphi_pxpz_eqn'' = Some NoneV"
    and "attrs (define_g_eqns cfg s) ''gstar_eigen_varphi_pxpz'' = Some NoneV"
    and "attrs (define_g_eqns cfg s) ''gstar_eigenvalues'' = Some NoneV"
    and "attrs (define_g_eqns cfg s) ''gstar_eigenvectors'' = Some NoneV"
    and "out (define_g_eqns cfg s) = out s @ [CannotComputeMetric]"
  using assms by (simp_all add: define_g_eqns_def Let_def g_attrs_def)

lemma idtx_fgtx_frame:
  assumes "\<not> ((eta cfg = 1 / 4 \<or> eta cfg = 3 / 2) \<and> beta_type cfg = ''tan'')"
    and "find_cosbetasqrd_root c (1, - (1 / 100)) \<noteq> []
           \<or> find_cosbetasqrd_root c (10, - (1 / 2)) \<noteq> []"
  shows "\<exists>s'. define_idtx_fgtx_eqns c cfg s = Inr s' \<and> out s' = out s
           \<and> (\<forall>k \<in> set (''tanbeta_alpha_eqn'' # g_attrs @ prep_geodesic_attrs @ define_geodesic_attrs).
                 attrs s' k = attrs s k)"
proof -
  define soln where "soln = (if find_cosbetasqrd_root c (1, - (1 / 100)) = []
      then find_cosbetasqrd_root c (10, - (1 / 2)) else find_cosbetasqrd_root c (1, - (1 / 100)))"
  from assms(2) have "soln \<noteq> []"
    by (auto simp: soln_def)
  then obtain r rs where "soln = r # rs"
    by (cases soln) auto
  then show ?thesis
    using assms(1)
    by (simp add: define_idtx_fgtx_eqns_def Let_def flip: soln_def)
       (simp add: idtx_fgtx_attrs_def g_attrs_def geodesic_attrs)
qed

lemma prep_geodesic_sine_eta_ge1:
  assumes "eta cfg \<ge> 1" "beta_type cfg = ''sin''"
  shows "prep_geodesic_eqns c cfg ps s
         = Inr (py_print CannotComputeGeodesic (assign_all prep_geodesic_attrs NoneV s))"
  using assms by (simp add: prep_geodesic_eqns_def Let_def)

lemma define_geodesic_sine_eta_ge1:
  assumes "eta cfg \<ge> 1" "beta_type cfg = ''sin''"
  shows "define_geodesic_eqns cfg ps s
         = py_print CannotComputeGeodesic (assign_all define_geodesic_attrs NoneV s)"
  using assms by (simp add: define_geodesic_eqns_def Let_def)

lemma last_stages:
  assumes "ibc_type cfg \<in> set [''planar'', ''convex-up'', ''concave-up'']"
  shows "\<exists>s'. run [returns (define_px_poly_eqn cfg None), returns prep_ibc_eqns,
                   returns define_ibc_eqns, set_ibc_eqns cfg] s = Inr s'
           \<and> out s' = out s
           \<and> (\<forall>k \<in> set (''tanbeta_alpha_eqn'' # g_attrs @ prep_geodesic_attrs @ define_geodesic_attrs).
                 attrs s' k = attrs s k)
           \<and> (\<forall>k \<in> set [''poly_px_xiv_varphi_eqn'', ''poly_px_xiv0_eqn'', ''pz0_xiv0_eqn'',
                          ''pzpx_unity_eqn'', ''boundary_eqns'', ''rz_initial_eqn'',
                          ''tanbeta_initial_eqn'', ''p_initial_eqn'', ''px_initial_eqn'',
                          ''pz_initial_eqn'']. attrs s' k = Some Expr)"
  using assms
  by (simp add: returns_def set_ibc_eqns_def define_px_poly_eqn_def prep_ibc_eqns_def
        define_ibc_eqns_def g_attrs_def geodesic_attrs)


lemma eta1_sine_init:
  assumes e: "eta cfg = 1" and b: "beta_type cfg = ''sin''"
    and v: "varphi_type cfg = ''ramp'' \<or> varphi_type cfg = ''ramp-flat''"
    and i: "ibc_type cfg \<in> set [''planar'', ''convex-up'', ''concave-up'']"
    and n: "\<not> do_nothing cfg"
    and x: "do_idtx cfg \<longrightarrow> find_cosbetasqrd_root c (1, - (1 / 100)) \<noteq> []
              \<or> find_cosbetasqrd_root c (10, - (1 / 2)) \<noteq> []"
  shows "\<exists>st. init c cfg = Inr st
     \<and> attrs st ''tanbeta_alpha_eqn'' = Some NoneV
     \<and> attrs st ''gstar_varphi_pxpz_eqn'' = Some Expr
     \<and> attrs st ''det_gstar_varphi_pxpz_eqn'' = Some Expr
     \<and> attrs st ''g_varphi_pxpz_eqn'' = Some NoneV
     \<and> attrs st ''gstar_eigen_varphi_pxpz'' = Some NoneV
     \<and> attrs st ''gstar_eigenvalues'' = Some NoneV
     \<and> attrs st ''gstar_eigenvectors'' = Some NoneV
     \<and> (\<forall>k \<in> set (prep_geodesic_attrs @ define_geodesic_attrs).
           attrs st k = (if do_geodesic cfg then Some NoneV else None))
     \<and> out st = (if filter (real_positive c) (alpha_extrema c) = [] \<and> alpha_extrema c \<noteq> []
                  then [RealPositiveRootNotFound] else [])
                 @ [CannotComputeBeta, CannotComputeMetric]
                 @ (if do_geodesic cfg then [CannotComputeGeodesic, CannotComputeGeodesic] else [])
     \<and> (\<forall>k \<in> set [''poly_px_xiv_varphi_eqn'', ''poly_px_xiv0_eqn'', ''pz0_xiv0_eqn'',
                    ''pzpx_unity_eqn'', ''boundary_eqns'', ''rz_initial_eqn'',
                    ''tanbeta_initial_eqn'', ''p_initial_eqn'', ''px_initial_eqn'',
                    ''pz_initial_eqn'']. attrs st k = Some Expr)"
proof -
  let ?G = "prep_geodesic_attrs @ define_geodesic_attrs"
  let ?W = "''tanbeta_alpha_eqn'' # g_attrs @ ?G"
  let ?s1 = "define_xi_related_eqns cfg (define_xi_model_eqn (define_xi_eqns (define_r_eqns
          (define_p_eqns new_instance))))"
  have s1: "out ?s1 = []" "\<forall>k \<in> set ?G. attrs ?s1 k = None"
    using first_stages [of cfg new_instance] by (simp_all add: new_instance_def)
  obtain s2 where s2: "define_varphi_model_eqn cfg ?s1 = Inr s2" "out s2 = []"
      "\<forall>k \<in> set ?G. attrs s2 k = None"
    using varphi_model_known [OF v, of ?s1] s1 by auto
  let ?s3 = "define_tanalpha_eqns (define_Hamiltons_eqns (define_pdot_eqns (define_rdot_eqns
          (define_H_eqns (define_Fstar_eqns (define_varphi_related_eqns s2))))))"
  have s3: "out ?s3 = []" "\<forall>k \<in> set ?G. attrs ?s3 k = None"
    using middle_stages [of s2] s2 by simp_all
  obtain s4 where s4: "define_tanbeta_eqns c cfg True ?s3 = Inr s4"
      "attrs s4 ''tanbeta_alpha_eqn'' = Some NoneV"
      "out s4 = (if filter (real_positive c) (alpha_extrema c) = [] \<and> alpha_extrema c \<noteq> []
                 then [RealPositiveRootNotFound] else []) @ [CannotComputeBeta]"
      "\<forall>k \<in> set ?G. attrs s4 k = None"
    using tanbeta_eta1_sine [OF e b, of c True ?s3] s3 by auto
  let ?s5 = "define_g_eqns cfg s4"
  have s5: "attrs ?s5 ''tanbeta_alpha_eqn'' = Some NoneV"
      "attrs ?s5 ''gstar_varphi_pxpz_eqn'' = Some Expr"
      "attrs ?s5 ''det_gstar_varphi_pxpz_eqn'' = Some Expr"
      "attrs ?s5 ''g_varphi_pxpz_eqn'' = Some NoneV"
      "attrs ?s5 ''gstar_eigen_varphi_pxpz'' = Some NoneV"
      "attrs ?s5 ''gstar_eigenvalues'' = Some NoneV"
      "attrs ?s5 ''gstar_eigenvectors'' = Some NoneV"
      "out ?s5 = out s4 @ [CannotComputeMetric]"
      "\<forall>k \<in> set ?G. attrs ?s5 k = None"
    using g_eqns_frame [of cfg s4] g_eqns_eta1_sine [OF e b, of s4] s4 by simp_all
  obtain s6 where s6: "run (if do_idtx cfg then [define_idtx_fgtx_eqns c cfg] else []) ?s5 = Inr s6"
      "out s6 = out ?s5" "\<forall>k \<in> set ?W. attrs s6 k = attrs ?s5 k"
  proof (cases "do_idtx cfg")
    case True
    have "\<not> ((eta cfg = 1 / 4 \<or> eta cfg = 3 / 2) \<and> beta_type cfg = ''tan'')"
      using b by simp
    from idtx_fgtx_frame [OF this, of c ?s5] x True that show ?thesis
      by auto
  next
    case False
    with that [of ?s5] show ?thesis by simp
  qed
  have s6': "attrs s6 ''tanbeta_alpha_eqn'' = Some NoneV"
      "attrs s6 ''gstar_varphi_pxpz_eqn'' = Some Expr"
      "attrs s6 ''det_gstar_varphi_pxpz_eqn'' = Some Expr"
      "attrs s6 ''g_varphi_pxpz_eqn'' = Some NoneV"
      "attrs s6 ''gstar_eigen_varphi_pxpz'' = Some NoneV"
      "attrs s6 ''gstar_eigenvalues'' = Some NoneV"
      "attrs s6 ''gstar_eigenvectors'' = Some NoneV"
      "\<forall>k \<in> set ?G. attrs s6 k = None"
    using s6(3) s5 by (simp_all add: g_attrs_def)
  let ?ps = "if \<not> do_raw cfg then parameters cfg else None"
  define s7 where "s7 = (if do_geodesic cfg
             then py_print CannotComputeGeodesic (assign_all define_geodesic_attrs NoneV
                    (py_print CannotComputeGeodesic (assign_all prep_geodesic_attrs NoneV s6)))
             else s6)"
  have e1: "eta cfg \<ge> 1" using e by simp
  have s7: "run (if do_geodesic cfg
                 then [prep_geodesic_eqns c cfg ps, returns (define_geodesic_eqns cfg ps)]
                 else []) s6 = Inr s7" for ps
    by (simp add: s7_def returns_def prep_geodesic_sine_eta_ge1 [OF e1 b]
        define_geodesic_sine_eta_ge1 [OF e1 b])
  have s7': "attrs s7 ''tanbeta_alpha_eqn'' = Some NoneV"
      "attrs s7 ''gstar_varphi_pxpz_eqn'' = Some Expr"
      "attrs s7 ''det_gstar_varphi_pxpz_eqn'' = Some Expr"
      "attrs s7 ''g_varphi_pxpz_eqn'' = Some NoneV"
      "attrs s7 ''gstar_eigen_varphi_pxpz'' = Some NoneV"
      "attrs s7 ''gstar_eigenvalues'' = Some NoneV"
      "attrs s7 ''gstar_eigenvectors'' = Some NoneV"
    using s6' by (simp_all add: s7_def geodesic_attrs)
  have s7g: "\<forall>k \<in> set ?G. attrs s7 k = (if do_geodesic cfg then Some NoneV else None)"
    using s6'(8) by (auto simp: s7_def)
  have s7o: "out s7 = out s6
               @ (if do_geodesic cfg then [CannotComputeGeodesic, CannotComputeGeodesic] else [])"
    by (simp add: s7_def)
  obtain s8 where s8: "run [returns (define_px_poly_eqn cfg None), returns prep_ibc_eqns,
                   returns define_ibc_eqns, set_ibc_eqns cfg] s7 = Inr s8"
      "out s8 = out s7" "\<forall>k \<in> set ?W. attrs s8 k = attrs s7 k"
      "\<forall>k \<in> set [''poly_px_xiv_varphi_eqn'', ''poly_px_xiv0_eqn'', ''pz0_xiv0_eqn'',
                    ''pzpx_unity_eqn'', ''boundary_eqns'', ''rz_initial_eqn'',
                    ''tanbeta_initial_eqn'', ''p_initial_eqn'', ''px_initial_eqn'',
                    ''pz_initial_eqn'']. attrs s8 k = Some Expr"
    using last_stages [OF i, of s7] by blast
  have run: "init c cfg = Inr s8"
    using n
    by (simp add: init_def run_returns run_Inr [where stage = "define_varphi_model_eqn cfg", OF s2(1)]
        run_Inr [where stage = "define_tanbeta_eqns c cfg True", OF s4(1)] run_append
        s6(1) s7 s8(1) [unfolded run_returns] del: run.simps(2))
  have keep: "attrs s8 ''tanbeta_alpha_eqn'' = attrs s7 ''tanbeta_alpha_eqn''"
      "attrs s8 ''gstar_varphi_pxpz_eqn'' = attrs s7 ''gstar_varphi_pxpz_eqn''"
      "attrs s8 ''det_gstar_varphi_pxpz_eqn'' = attrs s7 ''det_gstar_varphi_pxpz_eqn''"
      "attrs s8 ''g_varphi_pxpz_eqn'' = attrs s7 ''g_varphi_pxpz_eqn''"
      "attrs s8 ''gstar_eigen_varphi_pxpz'' = attrs s7 ''gstar_eigen_varphi_pxpz''"
      "attrs s8 ''gstar_eigenvalues'' = attrs s7 ''gstar_eigenvalues''"
      "attrs s8 ''gstar_eigenvectors'' = attrs s7 ''gstar_eigenvectors''"
      "\<forall>k \<in> set ?G. attrs s8 k = attrs s7 k"
    using s8(3) by (simp_all add: g_attrs_def)
  have outs: "out s8 = (if filter (real_positive c) (alpha_extrema c) = [] \<and> alpha_extrema c \<noteq> []
                  then [RealPositiveRootNotFound] else [])
                 @ [CannotComputeBeta, CannotComputeMetric]
                 @ (if do_geodesic cfg then [CannotComputeGeodesic, CannotComputeGeodesic] else [])"
    unfolding s8(2) s7o s6(2) s5(8) s4(3) by simp
  have geo: "\<forall>k \<in> set ?G. attrs s8 k = (if do_geodesic cfg then Some NoneV else None)"
    using keep(8) s7g by simp
  show ?thesis
    using run keep(1-7) s7' geo outs s8(4) by (intro exI [of _ s8] conjI) simp_all
qed

lemma final_simps [simp]: "final (Inr s) = s" "final (Inl (e, s)) = s"
  by (simp_all add: final_def)

lemma raised_simps [simp]: "raised (Inr s) = None" "raised (Inl (e, s)) = Some e"
  by (simp_all add: raised_def)

subsection \<open>Selections and exclusions\<close>

lemma run_Inl: "stage s = Inl e \<Longrightarrow> run (stage # fs) s = Inl e"
  by simp

lemma find_None_filter: "find P xs = None \<Longrightarrow> filter P xs = []"
  by (induction xs) (auto split: if_splits)

lemma find_Some_filter: "find P xs = Some r \<Longrightarrow> \<exists>rs. filter P xs = r # rs"
  by (induction xs) (auto split: if_splits)

lemma tanbeta_alpha_root_selection_aux:
  assumes "\<not> (eta cfg = 1 \<and> beta_type cfg = ''sin'')"
  shows "case find (\<lambda>r. real_at c r 0 \<or> real_at c r (1 / 100) \<or> real_at c r 1) (tanbeta_solns c) of
           Some r \<Rightarrow> (\<exists>s'. define_tanbeta_eqns c cfg b s = Inr s'
                          \<and> attrs s' ''tanbeta_alpha_eqn'' = Some (Root r))
         | None \<Rightarrow> (\<exists>s'. define_tanbeta_eqns c cfg b s = Inl (IndexError, s')
                          \<and> attrs s' ''tanbeta_alpha_eqn'' = Some NoneV)"
proof -
  have P: "real_at_probes c = (\<lambda>r. real_at c r 0 \<or> real_at c r (1 / 100) \<or> real_at c r 1)"
    by (simp add: real_at_probes_def fun_eq_iff)
  show ?thesis
  proof (cases "find (real_at_probes c) (tanbeta_solns c)")
    case None
    then have "filter (real_at_probes c) (tanbeta_solns c) = []"
      by (rule find_None_filter)
    with None assms show ?thesis
      unfolding P [symmetric] by (simp add: define_tanbeta_eqns_def Let_def)
  next
    case (Some r)
    from find_Some_filter [OF Some]
    obtain rs where "filter (real_at_probes c) (tanbeta_solns c) = r # rs" ..
    with Some assms show ?thesis
      unfolding P [symmetric] by (simp add: define_tanbeta_eqns_def Let_def)
  qed
qed





text \<open>
  C5. The flow-model stage stores the ramp closure in \<^verbatim>\<open>varphi_rx_eqn\<close> for
  \<^verbatim>\<open>'ramp'\<close>; for \<^verbatim>\<open>'ramp-flat'\<close> the logistic-integral closure when \<open>\<mu> = 1/2\<close> and the
  generalised smoothed-logistic closure for every other \<open>\<mu>\<close>; for every other string it
  raises \<^verbatim>\<open>ValueError('Unknown flow model')\<close>, and the construction ends with this error.
\<close>

theorem flow_model_selection:
  "(varphi_type cfg = ''ramp'' \<longrightarrow>
      (\<exists>s'. define_varphi_model_eqn cfg s = Inr s'
            \<and> attrs s' ''varphi_rx_eqn'' = Some (Closure Ramp)))
   \<and> (varphi_type cfg = ''ramp-flat'' \<and> mu cfg = 1 / 2 \<longrightarrow>
      (\<exists>s'. define_varphi_model_eqn cfg s = Inr s'
            \<and> attrs s' ''varphi_rx_eqn'' = Some (Closure RampFlat)))
   \<and> (varphi_type cfg = ''ramp-flat'' \<and> mu cfg \<noteq> 1 / 2 \<longrightarrow>
      (\<exists>s'. define_varphi_model_eqn cfg s = Inr s'
            \<and> attrs s' ''varphi_rx_eqn'' = Some (Closure RampFlatMu)))
   \<and> (varphi_type cfg \<noteq> ''ramp'' \<and> varphi_type cfg \<noteq> ''ramp-flat'' \<longrightarrow>
      (\<exists>s'. define_varphi_model_eqn cfg s = Inl (ValueError ''Unknown flow model'', s'))
      \<and> (\<not> do_nothing cfg \<longrightarrow>
           (\<exists>s'. init c cfg = Inl (ValueError ''Unknown flow model'', s'))))"
proof (intro conjI impI)
  assume "varphi_type cfg = ''ramp''"
  then show "\<exists>s'. define_varphi_model_eqn cfg s = Inr s'
            \<and> attrs s' ''varphi_rx_eqn'' = Some (Closure Ramp)"
    by (simp add: define_varphi_model_eqn_def Let_def)
next
  assume "varphi_type cfg = ''ramp-flat'' \<and> mu cfg = 1 / 2"
  then show "\<exists>s'. define_varphi_model_eqn cfg s = Inr s'
            \<and> attrs s' ''varphi_rx_eqn'' = Some (Closure RampFlat)"
    by (simp add: define_varphi_model_eqn_def Let_def)
next
  assume "varphi_type cfg = ''ramp-flat'' \<and> mu cfg \<noteq> 1 / 2"
  then show "\<exists>s'. define_varphi_model_eqn cfg s = Inr s'
            \<and> attrs s' ''varphi_rx_eqn'' = Some (Closure RampFlatMu)"
    by (simp add: define_varphi_model_eqn_def Let_def)
next
  assume u: "varphi_type cfg \<noteq> ''ramp'' \<and> varphi_type cfg \<noteq> ''ramp-flat''"
  then have raises: "\<exists>s'. define_varphi_model_eqn cfg t = Inl (ValueError ''Unknown flow model'', s')"
    for t
    by (simp add: define_varphi_model_eqn_def Let_def)
  from raises show "\<exists>s'. define_varphi_model_eqn cfg s = Inl (ValueError ''Unknown flow model'', s')" .
  assume n: "\<not> do_nothing cfg"
  let ?s1 = "define_xi_related_eqns cfg (define_xi_model_eqn (define_xi_eqns (define_r_eqns
          (define_p_eqns new_instance))))"
  from raises obtain s' where
    "define_varphi_model_eqn cfg ?s1 = Inl (ValueError ''Unknown flow model'', s')"
    by blast
  then have "init c cfg = Inl (ValueError ''Unknown flow model'', s')"
    using n
    by (simp add: init_def run_returns run_Inl [where stage = "define_varphi_model_eqn cfg"]
        del: run.simps(2))
  then show "\<exists>s'. init c cfg = Inl (ValueError ''Unknown flow model'', s')" ..
qed

theorem flow_model_selection_witness:
  "(\<exists>s'. define_varphi_model_eqn default_config new_instance = Inr s'
        \<and> attrs s' ''varphi_rx_eqn'' = Some (Closure Ramp))
   \<and> (\<exists>s'. define_varphi_model_eqn (default_config\<lparr>varphi_type := ''ramp-flat'', mu := 1 / 2\<rparr>)
              new_instance = Inr s'
        \<and> attrs s' ''varphi_rx_eqn'' = Some (Closure RampFlat))
   \<and> (\<exists>s'. define_varphi_model_eqn (default_config\<lparr>varphi_type := ''ramp-flat''\<rparr>)
              new_instance = Inr s'
        \<and> attrs s' ''varphi_rx_eqn'' = Some (Closure RampFlatMu))
   \<and> (\<exists>s'. init example_cas (default_config\<lparr>varphi_type := ''flat''\<rparr>)
              = Inl (ValueError ''Unknown flow model'', s'))"
  using flow_model_selection [of default_config new_instance example_cas]
    flow_model_selection [of "default_config\<lparr>varphi_type := ''ramp-flat'', mu := 1 / 2\<rparr>"
      new_instance example_cas]
    flow_model_selection [of "default_config\<lparr>varphi_type := ''ramp-flat''\<rparr>"
      new_instance example_cas]
    flow_model_selection [of "default_config\<lparr>varphi_type := ''flat''\<rparr>"
      new_instance example_cas]
  by (simp add: default_config_def)

text \<open>
  C8. With \<open>\<eta> = 1\<close> and the sine model (a known flow model and boundary profile, and
  derivation not switched off), construction returns. The stages concerned print their
  notice; the inverse relation, the primal metric and the eigen-decomposition are \<^verbatim>\<open>None\<close>;
  when the geodesic stages are requested each of their attributes is \<^verbatim>\<open>None\<close> (and none of
  them exists when they are not requested); the stages after them have run: the polynomial
  form and the boundary and initial conditions are there. When the indicatrix stage is
  requested it is not skipped for this configuration, so it has to find its root.
\<close>

theorem eta1_sine_construction:
  assumes "eta cfg = 1" and "beta_type cfg = ''sin''"
    and "varphi_type cfg = ''ramp'' \<or> varphi_type cfg = ''ramp-flat''"
    and "ibc_type cfg \<in> set [''planar'', ''convex-up'', ''concave-up'']"
    and "\<not> do_nothing cfg"
    and "do_idtx cfg \<longrightarrow> find_cosbetasqrd_root c (1, - (1 / 100)) \<noteq> []
              \<or> find_cosbetasqrd_root c (10, - (1 / 2)) \<noteq> []"
  shows "\<exists>st. init c cfg = Inr st
     \<and> attrs st ''tanbeta_alpha_eqn'' = Some NoneV
     \<and> attrs st ''g_varphi_pxpz_eqn'' = Some NoneV
     \<and> attrs st ''gstar_eigen_varphi_pxpz'' = Some NoneV
     \<and> attrs st ''gstar_eigenvalues'' = Some NoneV
     \<and> attrs st ''gstar_eigenvectors'' = Some NoneV
     \<and> (\<forall>k \<in> set (prep_geodesic_attrs @ define_geodesic_attrs).
           attrs st k = (if do_geodesic cfg then Some NoneV else None))
     \<and> out st = (if filter (real_positive c) (alpha_extrema c) = [] \<and> alpha_extrema c \<noteq> []
                  then [RealPositiveRootNotFound] else [])
                 @ [CannotComputeBeta, CannotComputeMetric]
                 @ (if do_geodesic cfg then [CannotComputeGeodesic, CannotComputeGeodesic] else [])
     \<and> (\<forall>k \<in> set [''poly_px_xiv_varphi_eqn'', ''poly_px_xiv0_eqn'', ''pz0_xiv0_eqn'',
                    ''pzpx_unity_eqn'', ''boundary_eqns'', ''rz_initial_eqn'',
                    ''tanbeta_initial_eqn'', ''p_initial_eqn'', ''px_initial_eqn'',
                    ''pz_initial_eqn'']. attrs st k = Some Expr)"
  using eta1_sine_init [OF assms] by blast

theorem eta1_sine_construction_witness:
  "eta (default_config\<lparr>eta := 1, do_idtx := True, do_geodesic := True\<rparr>) = 1
   \<and> beta_type (default_config\<lparr>eta := 1, do_idtx := True, do_geodesic := True\<rparr>) = ''sin''
   \<and> find_cosbetasqrd_root eta1_cas (1, - (1 / 100)) \<noteq> []
   \<and> (\<exists>st. init eta1_cas (default_config\<lparr>eta := 1, do_idtx := True, do_geodesic := True\<rparr>)
              = Inr st
         \<and> attrs st ''tanbeta_alpha_eqn'' = Some NoneV
         \<and> attrs st ''g_varphi_pxpz_eqn'' = Some NoneV
         \<and> attrs st ''gstar_eigenvalues'' = Some NoneV
         \<and> attrs st ''g_ij_mat'' = Some NoneV
         \<and> attrs st ''geodesic_eqns'' = Some NoneV
         \<and> attrs st ''vdotx_lambdified'' = Some NoneV
         \<and> out st = [CannotComputeBeta, CannotComputeMetric, CannotComputeGeodesic,
                      CannotComputeGeodesic]
         \<and> attrs st ''pz_initial_eqn'' = Some Expr)"
proof -
  let ?cfg = "default_config\<lparr>eta := 1, do_idtx := True, do_geodesic := True\<rparr>"
  have f: "find_cosbetasqrd_root eta1_cas (1, - (1 / 100)) \<noteq> []"
    by (simp add: find_cosbetasqrd_root_def eta1_cas_def)
  have h: "eta ?cfg = 1" "beta_type ?cfg = ''sin''"
    "varphi_type ?cfg = ''ramp'' \<or> varphi_type ?cfg = ''ramp-flat''"
    "ibc_type ?cfg \<in> set [''planar'', ''convex-up'', ''concave-up'']"
    "\<not> do_nothing ?cfg"
    by (simp_all add: default_config_def)
  have a: "alpha_extrema eta1_cas = []"
    by (simp add: eta1_cas_def)
  have d: "do_geodesic ?cfg" by (simp add: default_config_def)
  from eta1_sine_construction [OF h, of eta1_cas] f
  obtain st where st: "init eta1_cas ?cfg = Inr st"
      "attrs st ''tanbeta_alpha_eqn'' = Some NoneV"
      "attrs st ''g_varphi_pxpz_eqn'' = Some NoneV"
      "attrs st ''gstar_eigenvalues'' = Some NoneV"
      "\<forall>k \<in> set (prep_geodesic_attrs @ define_geodesic_attrs).
           attrs st k = (if do_geodesic ?cfg then Some NoneV else None)"
      "out st = (if filter (real_positive eta1_cas) (alpha_extrema eta1_cas) = []
                    \<and> alpha_extrema eta1_cas \<noteq> []
                  then [RealPositiveRootNotFound] else [])
                 @ [CannotComputeBeta, CannotComputeMetric]
                 @ (if do_geodesic ?cfg then [CannotComputeGeodesic, CannotComputeGeodesic] else [])"
      "attrs st ''pz_initial_eqn'' = Some Expr"
    by auto
  from st(5) d have g: "attrs st ''g_ij_mat'' = Some NoneV" "attrs st ''geodesic_eqns'' = Some NoneV"
      "attrs st ''vdotx_lambdified'' = Some NoneV"
    by (simp_all add: geodesic_attrs)
  from st(6) a d have o: "out st = [CannotComputeBeta, CannotComputeMetric, CannotComputeGeodesic,
                      CannotComputeGeodesic]"
    by simp
  show ?thesis
    using h(1,2) f st(1-4,7) g o by blast
qed

text \<open>
  C10. With \<open>\<eta> = 1\<close> and the sine model the metric stage returns only after it has stored
  the dual metric and its determinant: \<^verbatim>\<open>gstar_varphi_pxpz_eqn\<close> and
  \<^verbatim>\<open>det_gstar_varphi_pxpz_eqn\<close> are available while the primal metric and the three
  eigen-decomposition attributes are \<^verbatim>\<open>None\<close>, both right after the stage and at the end of
  a construction that returns.
\<close>

theorem dual_metric_kept_at_eta1_sine:
  assumes "eta cfg = 1" and "beta_type cfg = ''sin''"
  shows "attrs (define_g_eqns cfg s) ''gstar_varphi_pxpz_eqn'' = Some Expr
     \<and> attrs (define_g_eqns cfg s) ''det_gstar_varphi_pxpz_eqn'' = Some Expr
     \<and> attrs (define_g_eqns cfg s) ''g_varphi_pxpz_eqn'' = Some NoneV
     \<and> attrs (define_g_eqns cfg s) ''gstar_eigen_varphi_pxpz'' = Some NoneV
     \<and> attrs (define_g_eqns cfg s) ''gstar_eigenvalues'' = Some NoneV
     \<and> attrs (define_g_eqns cfg s) ''gstar_eigenvectors'' = Some NoneV
     \<and> out (define_g_eqns cfg s) = out s @ [CannotComputeMetric]
     \<and> ((varphi_type cfg = ''ramp'' \<or> varphi_type cfg = ''ramp-flat'')
          \<and> ibc_type cfg \<in> set [''planar'', ''convex-up'', ''concave-up'']
          \<and> \<not> do_nothing cfg
          \<and> (do_idtx cfg \<longrightarrow> find_cosbetasqrd_root c (1, - (1 / 100)) \<noteq> []
                \<or> find_cosbetasqrd_root c (10, - (1 / 2)) \<noteq> [])
        \<longrightarrow> (\<exists>st. init c cfg = Inr st
               \<and> attrs st ''gstar_varphi_pxpz_eqn'' = Some Expr
               \<and> attrs st ''det_gstar_varphi_pxpz_eqn'' = Some Expr
               \<and> attrs st ''g_varphi_pxpz_eqn'' = Some NoneV
               \<and> attrs st ''gstar_eigen_varphi_pxpz'' = Some NoneV
               \<and> attrs st ''gstar_eigenvalues'' = Some NoneV
               \<and> attrs st ''gstar_eigenvectors'' = Some NoneV))"
proof -
  have "\<exists>st. init c cfg = Inr st
               \<and> attrs st ''gstar_varphi_pxpz_eqn'' = Some Expr
               \<and> attrs st ''det_gstar_varphi_pxpz_eqn'' = Some Expr
               \<and> attrs st ''g_varphi_pxpz_eqn'' = Some NoneV
               \<and> attrs st ''gstar_eigen_varphi_pxpz'' = Some NoneV
               \<and> attrs st ''gstar_eigenvalues'' = Some NoneV
               \<and> attrs st ''gstar_eigenvectors'' = Some NoneV"
    if "varphi_type cfg = ''ramp'' \<or> varphi_type cfg = ''ramp-flat''"
      and "ibc_type cfg \<in> set [''planar'', ''convex-up'', ''concave-up'']"
      and "\<not> do_nothing cfg"
      and "do_idtx cfg \<longrightarrow> find_cosbetasqrd_root c (1, - (1 / 100)) \<noteq> []
                \<or> find_cosbetasqrd_root c (10, - (1 / 2)) \<noteq> []"
    using eta1_sine_init [OF assms that] by blast
  then show ?thesis
    using g_eqns_eta1_sine [OF assms, of s] by blast
qed

theorem dual_metric_kept_at_eta1_sine_witness:
  "eta (default_config\<lparr>eta := 1\<rparr>) = 1 \<and> beta_type (default_config\<lparr>eta := 1\<rparr>) = ''sin''
   \<and> attrs (define_g_eqns (default_config\<lparr>eta := 1\<rparr>) new_instance) ''gstar_varphi_pxpz_eqn''
       = Some Expr
   \<and> attrs (define_g_eqns (default_config\<lparr>eta := 1\<rparr>) new_instance) ''det_gstar_varphi_pxpz_eqn''
       = Some Expr
   \<and> attrs (define_g_eqns (default_config\<lparr>eta := 1\<rparr>) new_instance) ''g_varphi_pxpz_eqn''
       = Some NoneV
   \<and> attrs (define_g_eqns (default_config\<lparr>eta := 1\<rparr>) new_instance) ''gstar_eigenvalues''
       = Some NoneV
   \<and> out (define_g_eqns (default_config\<lparr>eta := 1\<rparr>) new_instance) = [CannotComputeMetric]
   \<and> (\<exists>st. init eta1_cas (default_config\<lparr>eta := 1\<rparr>) = Inr st
          \<and> attrs st ''gstar_varphi_pxpz_eqn'' = Some Expr
          \<and> attrs st ''det_gstar_varphi_pxpz_eqn'' = Some Expr
          \<and> attrs st ''g_varphi_pxpz_eqn'' = Some NoneV)"
proof -
  let ?cfg = "default_config\<lparr>eta := 1\<rparr>"
  have h: "eta ?cfg = 1" "beta_type ?cfg = ''sin''"
    by (simp_all add: default_config_def)
  have p: "(varphi_type ?cfg = ''ramp'' \<or> varphi_type ?cfg = ''ramp-flat'')
          \<and> ibc_type ?cfg \<in> set [''planar'', ''convex-up'', ''concave-up'']
          \<and> \<not> do_nothing ?cfg
          \<and> (do_idtx ?cfg \<longrightarrow> find_cosbetasqrd_root eta1_cas (1, - (1 / 100)) \<noteq> []
                \<or> find_cosbetasqrd_root eta1_cas (10, - (1 / 2)) \<noteq> [])"
    by (simp add: default_config_def)
  have o: "out new_instance = []" by (simp add: new_instance_def)
  show ?thesis
    using h p o dual_metric_kept_at_eta1_sine [OF h, of new_instance eta1_cas]
    by auto
qed

text \<open>
  C6, as stated, fails: with no stationary-point candidate at all (here \<open>\<eta> = 0\<close>) the stage
  records the sentinel \<open>0\<close> and prints nothing.
\<close>

theorem sentinel_without_diagnostic:
  "attrs (final (define_tanbeta_eqns eta0_cas (default_config\<lparr>eta := 0\<rparr>) True new_instance))
      ''beta_at_alpha_extremum_eqn'' = Some Zero
   \<and> out (final (define_tanbeta_eqns eta0_cas (default_config\<lparr>eta := 0\<rparr>) True new_instance)) = []"
  by (simp add: define_tanbeta_eqns_def Let_def eta0_cas_def default_config_def new_instance_def
      real_at_probes_def)

text \<open>
  C6, amended. When no stationary-point candidate exists at all, the stage records the
  sentinel \<open>0\<close> in \<^verbatim>\<open>beta_at_alpha_extremum_eqn\<close> and in its numerical form, and prints no
  warning for it. The warning that no real positive root was found is printed exactly when
  candidates exist and none is real and positive; then the first candidate is recorded, not
  \<open>0\<close>. The only other notice of the stage is the one for \<open>\<eta> = 1\<close> with the sine model.
\<close>

theorem extremum_fallbacks:
  "(alpha_extrema c = [] \<longrightarrow>
      attrs (final (define_tanbeta_eqns c cfg True s)) ''beta_at_alpha_extremum_eqn'' = Some Zero
      \<and> attrs (final (define_tanbeta_eqns c cfg True s)) ''beta_at_alpha_extremum_numerical_eqn''
          = Some Zero)
   \<and> (alpha_extrema c \<noteq> [] \<and> filter (real_positive c) (alpha_extrema c) = [] \<longrightarrow>
      attrs (final (define_tanbeta_eqns c cfg True s)) ''beta_at_alpha_extremum_eqn''
          = Some (Root (hd (alpha_extrema c))))
   \<and> out (final (define_tanbeta_eqns c cfg True s))
       = out s
         @ (if alpha_extrema c \<noteq> [] \<and> filter (real_positive c) (alpha_extrema c) = []
            then [RealPositiveRootNotFound] else [])
         @ (if eta cfg = 1 \<and> beta_type cfg = ''sin'' then [CannotComputeBeta] else [])"
  by (cases "filter (real_at_probes c) (tanbeta_solns c)")
     (auto simp: define_tanbeta_eqns_def Let_def)

theorem extremum_fallbacks_witness:
  "alpha_extrema eta0_cas = []
   \<and> attrs (final (define_tanbeta_eqns eta0_cas (default_config\<lparr>eta := 0\<rparr>) True new_instance))
        ''beta_at_alpha_extremum_eqn'' = Some Zero
   \<and> alpha_extrema (example_cas\<lparr>real_positive := (\<lambda>e. False)\<rparr>) \<noteq> []
   \<and> filter (real_positive (example_cas\<lparr>real_positive := (\<lambda>e. False)\<rparr>))
        (alpha_extrema (example_cas\<lparr>real_positive := (\<lambda>e. False)\<rparr>)) = []
   \<and> attrs (final (define_tanbeta_eqns (example_cas\<lparr>real_positive := (\<lambda>e. False)\<rparr>)
                default_config True new_instance))
        ''beta_at_alpha_extremum_eqn'' = Some (Root ''-atan(sqrt(eta))'')
   \<and> out (final (define_tanbeta_eqns (example_cas\<lparr>real_positive := (\<lambda>e. False)\<rparr>)
                default_config True new_instance)) = [RealPositiveRootNotFound]"
proof -
  have a: "alpha_extrema eta0_cas = []" by (simp add: eta0_cas_def)
  have b: "alpha_extrema (example_cas\<lparr>real_positive := (\<lambda>e. False)\<rparr>)
             = [''-atan(sqrt(eta))'', ''atan(sqrt(eta))'']"
    "filter (real_positive (example_cas\<lparr>real_positive := (\<lambda>e. False)\<rparr>))
        (alpha_extrema (example_cas\<lparr>real_positive := (\<lambda>e. False)\<rparr>)) = []"
    by (simp_all add: example_cas_def)
  have d: "eta default_config \<noteq> 1" "out new_instance = []"
    by (simp_all add: default_config_def new_instance_def)
  show ?thesis
    using a b d
      extremum_fallbacks [of eta0_cas "default_config\<lparr>eta := 0\<rparr>" new_instance]
      extremum_fallbacks [of "example_cas\<lparr>real_positive := (\<lambda>e. False)\<rparr>" default_config
        new_instance]
    by simp
qed

text \<open>
  C9, as stated, fails: for the sine model with \<open>\<eta> \<ge> 1\<close> (here the default \<open>\<eta> = 3/2\<close>,
  whose results the docstring of the stage lists) the stage has no exclusion: it selects a
  root, derives its outputs and prints nothing.
\<close>

theorem sine_indicatrix_computed:
  "beta_type default_config = ''sin'' \<and> eta default_config \<ge> 1
   \<and> raised (define_idtx_fgtx_eqns example_cas default_config new_instance) = None
   \<and> attrs (final (define_idtx_fgtx_eqns example_cas default_config new_instance))
        ''fgtx_cossqrdbeta_pz_varphi_eqn'' = Some (Root ''c2'')
   \<and> attrs (final (define_idtx_fgtx_eqns example_cas default_config new_instance))
        ''idtx_rdotx_pz_varphi_eqn'' = Some Expr
   \<and> out (final (define_idtx_fgtx_eqns example_cas default_config new_instance)) = []"
  by (simp add: define_idtx_fgtx_eqns_def Let_def example_cas_def default_config_def
      new_instance_def find_cosbetasqrd_root_def idtx_fgtx_attrs_def)

text \<open>
  C9, amended. For the tangent model with \<open>\<eta> = 1/4\<close> or \<open>\<eta> = 3/2\<close> the stage prints its
  notice and returns with the selected root and the figuratrix and indicatrix equations
  \<^verbatim>\<open>None\<close>. For every other configuration, the sine model with \<open>\<eta> \<ge> 1\<close> included, it takes
  the first solution for \<open>cos\<^sup>2 \<beta>\<close> that is real and non-negative at the probe
  \<open>(\<phi>, p\<^sub>z) = (1, -0.01)\<close>, and when there is none the first that is at the probe
  \<open>(10, -0.5)\<close>; it stores that root and the equations derived from it and prints nothing;
  when neither probe gives a root, indexing the empty selection raises.
\<close>

theorem indicatrix_root_selection:
  "(beta_type cfg = ''tan'' \<and> (eta cfg = 1 / 4 \<or> eta cfg = 3 / 2) \<longrightarrow>
      (\<exists>s'. define_idtx_fgtx_eqns c cfg s = Inr s'
         \<and> out s' = out s @ [CannotComputeIndicatrix (eta cfg)]
         \<and> (\<forall>k \<in> set [''cosbetasqrd_pz_varphi_soln'', ''fgtx_cossqrdbeta_pz_varphi_eqn'',
                        ''fgtx_tanbeta_pz_varphi_eqn'', ''fgtx_px_pz_varphi_eqn'',
                        ''idtx_rdotx_pz_varphi_eqn'', ''idtx_rdotz_pz_varphi_eqn''].
               attrs s' k = Some NoneV)))
   \<and> (\<not> (beta_type cfg = ''tan'' \<and> (eta cfg = 1 / 4 \<or> eta cfg = 3 / 2)) \<longrightarrow>
      (case (case find (\<lambda>r. real_nonneg_at c r (1, - (1 / 100))) (cosbetasqrd_solns c) of
               Some r \<Rightarrow> Some r
             | None \<Rightarrow> find (\<lambda>r. real_nonneg_at c r (10, - (1 / 2))) (cosbetasqrd_solns c)) of
         Some r \<Rightarrow>
           (\<exists>s'. define_idtx_fgtx_eqns c cfg s = Inr s'
              \<and> attrs s' ''fgtx_cossqrdbeta_pz_varphi_eqn'' = Some (Root r)
              \<and> (\<forall>k \<in> set [''fgtx_tanbeta_pz_varphi_eqn'', ''fgtx_px_pz_varphi_eqn'',
                             ''idtx_rdotx_pz_varphi_eqn'', ''idtx_rdotz_pz_varphi_eqn''].
                    attrs s' k = Some Expr)
              \<and> out s' = out s)
       | None \<Rightarrow> (\<exists>s'. define_idtx_fgtx_eqns c cfg s = Inl (IndexError, s'))))"
proof (intro conjI impI)
  assume "beta_type cfg = ''tan'' \<and> (eta cfg = 1 / 4 \<or> eta cfg = 3 / 2)"
  then have g: "(eta cfg = 1 / 4 \<or> eta cfg = 3 / 2) \<and> beta_type cfg = ''tan''" by blast
  show "\<exists>s'. define_idtx_fgtx_eqns c cfg s = Inr s'
         \<and> out s' = out s @ [CannotComputeIndicatrix (eta cfg)]
         \<and> (\<forall>k \<in> set [''cosbetasqrd_pz_varphi_soln'', ''fgtx_cossqrdbeta_pz_varphi_eqn'',
                        ''fgtx_tanbeta_pz_varphi_eqn'', ''fgtx_px_pz_varphi_eqn'',
                        ''idtx_rdotx_pz_varphi_eqn'', ''idtx_rdotz_pz_varphi_eqn''].
               attrs s' k = Some NoneV)"
    using g by (simp add: define_idtx_fgtx_eqns_def Let_def idtx_fgtx_attrs_def)
next
  assume "\<not> (beta_type cfg = ''tan'' \<and> (eta cfg = 1 / 4 \<or> eta cfg = 3 / 2))"
  then have g: "\<not> ((eta cfg = 1 / 4 \<or> eta cfg = 3 / 2) \<and> beta_type cfg = ''tan'')" by blast
  let ?P1 = "\<lambda>r. real_nonneg_at c r (1, - (1 / 100))"
  let ?P2 = "\<lambda>r. real_nonneg_at c r (10, - (1 / 2))"
  define first where "first = (case find ?P1 (cosbetasqrd_solns c) of Some r \<Rightarrow> Some r
             | None \<Rightarrow> find ?P2 (cosbetasqrd_solns c))"
  define soln where "soln = (if find_cosbetasqrd_root c (1, - (1 / 100)) = []
      then find_cosbetasqrd_root c (10, - (1 / 2)) else find_cosbetasqrd_root c (1, - (1 / 100)))"
  have rel: "(first = None \<longrightarrow> soln = []) \<and> (\<forall>r. first = Some r \<longrightarrow> (\<exists>rs. soln = r # rs))"
    unfolding first_def soln_def find_cosbetasqrd_root_def
    by (auto split: option.splits dest: find_None_filter find_Some_filter)
  have "case first of
         Some r \<Rightarrow>
           (\<exists>s'. define_idtx_fgtx_eqns c cfg s = Inr s'
              \<and> attrs s' ''fgtx_cossqrdbeta_pz_varphi_eqn'' = Some (Root r)
              \<and> (\<forall>k \<in> set [''fgtx_tanbeta_pz_varphi_eqn'', ''fgtx_px_pz_varphi_eqn'',
                             ''idtx_rdotx_pz_varphi_eqn'', ''idtx_rdotz_pz_varphi_eqn''].
                    attrs s' k = Some Expr)
              \<and> out s' = out s)
       | None \<Rightarrow> (\<exists>s'. define_idtx_fgtx_eqns c cfg s = Inl (IndexError, s'))"
  proof (cases first)
    case None
    with rel have "soln = []" by simp
    with None g show ?thesis
      by (simp add: define_idtx_fgtx_eqns_def Let_def flip: soln_def)
  next
    case (Some r)
    with rel obtain rs where "soln = r # rs" by auto
    with Some g show ?thesis
      by (simp add: define_idtx_fgtx_eqns_def Let_def flip: soln_def)
  qed
  then show "case (case find ?P1 (cosbetasqrd_solns c) of Some r \<Rightarrow> Some r
             | None \<Rightarrow> find ?P2 (cosbetasqrd_solns c)) of
         Some r \<Rightarrow>
           (\<exists>s'. define_idtx_fgtx_eqns c cfg s = Inr s'
              \<and> attrs s' ''fgtx_cossqrdbeta_pz_varphi_eqn'' = Some (Root r)
              \<and> (\<forall>k \<in> set [''fgtx_tanbeta_pz_varphi_eqn'', ''fgtx_px_pz_varphi_eqn'',
                             ''idtx_rdotx_pz_varphi_eqn'', ''idtx_rdotz_pz_varphi_eqn''].
                    attrs s' k = Some Expr)
              \<and> out s' = out s)
       | None \<Rightarrow> (\<exists>s'. define_idtx_fgtx_eqns c cfg s = Inl (IndexError, s'))"
    unfolding first_def .
qed


theorem indicatrix_root_selection_witness:
  "beta_type (default_config\<lparr>beta_type := ''tan''\<rparr>) = ''tan''
   \<and> eta (default_config\<lparr>beta_type := ''tan''\<rparr>) = 3 / 2
   \<and> (\<exists>s'. define_idtx_fgtx_eqns example_cas (default_config\<lparr>beta_type := ''tan''\<rparr>)
               new_instance = Inr s'
         \<and> out s' = [CannotComputeIndicatrix (3 / 2)]
         \<and> attrs s' ''fgtx_cossqrdbeta_pz_varphi_eqn'' = Some NoneV
         \<and> attrs s' ''idtx_rdotx_pz_varphi_eqn'' = Some NoneV)
   \<and> \<not> (beta_type default_config = ''tan'' \<and> (eta default_config = 1 / 4 \<or> eta default_config = 3 / 2))
   \<and> find (\<lambda>r. real_nonneg_at example_cas r (1, - (1 / 100))) (cosbetasqrd_solns example_cas)
       = Some ''c2''
   \<and> (\<exists>s'. define_idtx_fgtx_eqns example_cas default_config new_instance = Inr s'
         \<and> attrs s' ''fgtx_cossqrdbeta_pz_varphi_eqn'' = Some (Root ''c2''))"
proof -
  have t: "beta_type (default_config\<lparr>beta_type := ''tan''\<rparr>) = ''tan''"
    "eta (default_config\<lparr>beta_type := ''tan''\<rparr>) = 3 / 2"
    "\<not> (beta_type default_config = ''tan'' \<and> (eta default_config = 1 / 4 \<or> eta default_config = 3 / 2))"
    by (simp_all add: default_config_def)
  have f: "find (\<lambda>r. real_nonneg_at example_cas r (1, - (1 / 100))) (cosbetasqrd_solns example_cas)
       = Some ''c2''"
    by (simp add: example_cas_def)
  have o: "out new_instance = []" by (simp add: new_instance_def)
  show ?thesis
    using t f o
      indicatrix_root_selection [of "default_config\<lparr>beta_type := ''tan''\<rparr>" example_cas new_instance]
      indicatrix_root_selection [of default_config example_cas new_instance]
    by auto
qed

lemma prep_geodesic_without_parameters:
  assumes "\<not> (eta cfg \<ge> 1 \<and> beta_type cfg = ''sin'')" and "tanbeta_poly_solns c = r # rs"
  shows "raised (prep_geodesic_eqns c cfg None s) = Some BadSubstitution"
    and "attrs (final (prep_geodesic_eqns c cfg None s)) ''gstar_ij_tanbeta_mat'' = Some Expr"
    and "attrs (final (prep_geodesic_eqns c cfg None s)) ''g_ij_tanbeta_mat'' = Some Expr"
    and "attrs (final (prep_geodesic_eqns c cfg None s)) ''tanbeta_poly_eqn'' = Some Expr"
    and "attrs (final (prep_geodesic_eqns c cfg None s)) ''tanbeta_eqn'' = Some (Root r)"
    and "attrs (final (prep_geodesic_eqns c cfg None s)) ''gstar_ij_tanalpha_mat'' = Some Expr"
    and "attrs (final (prep_geodesic_eqns c cfg None s)) ''g_ij_mat'' = Some NoneV"
    and "attrs (final (prep_geodesic_eqns c cfg None s)) ''g_ij_mat_lambdified'' = Some NoneV"
  using assms by (simp_all add: prep_geodesic_eqns_def Let_def prep_geodesic_attrs_def)

lemma init_geodesic_without_parameters:
  assumes n: "\<not> do_nothing cfg" and x: "\<not> do_idtx cfg" and d: "do_geodesic cfg"
    and none: "do_raw cfg \<or> parameters cfg = None"
    and v: "varphi_type cfg = ''ramp'' \<or> varphi_type cfg = ''ramp-flat''"
    and g: "\<not> (eta cfg \<ge> 1 \<and> beta_type cfg = ''sin'')"
    and t: "find (\<lambda>r. real_at c r 0 \<or> real_at c r (1 / 100) \<or> real_at c r 1) (tanbeta_solns c)
              = Some t0"
    and p: "tanbeta_poly_solns c = r # rs"
  shows "raised (init c cfg) = Some BadSubstitution"
    and "attrs (final (init c cfg)) ''gstar_ij_tanbeta_mat'' = Some Expr"
    and "attrs (final (init c cfg)) ''gstar_ij_tanalpha_mat'' = Some Expr"
    and "attrs (final (init c cfg)) ''g_ij_mat'' = Some NoneV"
    and "attrs (final (init c cfg)) ''g_ij_mat_lambdified'' = Some NoneV"
proof -
  let ?s1 = "define_xi_related_eqns cfg (define_xi_model_eqn (define_xi_eqns (define_r_eqns
          (define_p_eqns new_instance))))"
  from varphi_model_known [OF v, of ?s1]
  obtain s2 where s2: "define_varphi_model_eqn cfg ?s1 = Inr s2" by blast
  let ?s3 = "define_tanalpha_eqns (define_Hamiltons_eqns (define_pdot_eqns (define_rdot_eqns
          (define_H_eqns (define_Fstar_eqns (define_varphi_related_eqns s2))))))"
  have ne: "\<not> (eta cfg = 1 \<and> beta_type cfg = ''sin'')"
    using g by auto
  from tanbeta_alpha_root_selection_aux [OF ne, of c True ?s3] t
  obtain s4 where s4: "define_tanbeta_eqns c cfg True ?s3 = Inr s4"
    by auto
  let ?s5 = "define_g_eqns cfg s4"
  let ?ps = "if \<not> do_raw cfg then parameters cfg else None"
  have ps: "?ps = None" using none by auto
  note bad = prep_geodesic_without_parameters [OF g p, of ?s5]
  from bad(1) obtain st where st: "prep_geodesic_eqns c cfg None ?s5 = Inl (BadSubstitution, st)"
    by (cases "prep_geodesic_eqns c cfg None ?s5") (auto simp: raised_def)
  have "init c cfg = Inl (BadSubstitution, st)"
    unfolding init_def ps
    by (simp add: n x d run_returns
        run_Inr [where stage = "define_varphi_model_eqn cfg", OF s2]
        run_Inr [where stage = "define_tanbeta_eqns c cfg True", OF s4]
        run_Inl [where stage = "prep_geodesic_eqns c cfg None", OF st]
        del: run.simps(2))
  with bad st show "raised (init c cfg) = Some BadSubstitution"
    and "attrs (final (init c cfg)) ''gstar_ij_tanbeta_mat'' = Some Expr"
    and "attrs (final (init c cfg)) ''gstar_ij_tanalpha_mat'' = Some Expr"
    and "attrs (final (init c cfg)) ''g_ij_mat'' = Some NoneV"
    and "attrs (final (init c cfg)) ''g_ij_mat_lambdified'' = Some NoneV"
    by simp_all
qed

text \<open>
  C4. Constructing with \<^verbatim>\<open>do_geodesic=True\<close> and \<^verbatim>\<open>parameters=None\<close> (here \<open>\<eta> = 1/2\<close>, sine
  model) does not leave the geodesic results unavailable and return: \<^verbatim>\<open>prep_geodesic_eqns\<close>
  raises at \<^verbatim>\<open>.subs(parameters)\<close>, after it has stored the metric in terms of \<open>tan \<beta>\<close> and
  \<open>tan \<alpha>\<close>, and \<^verbatim>\<open>gstar_ij_mat\<close>, \<^verbatim>\<open>g_ij_mat\<close> and the functions made by \<^verbatim>\<open>lambdify\<close>
  stay \<^verbatim>\<open>None\<close>.
\<close>

theorem geodesic_without_parameters_raises:
  "parameters (default_config\<lparr>eta := 1 / 2, do_geodesic := True\<rparr>) = None
   \<and> raised (init example_cas (default_config\<lparr>eta := 1 / 2, do_geodesic := True\<rparr>))
       = Some BadSubstitution
   \<and> attrs (final (init example_cas (default_config\<lparr>eta := 1 / 2, do_geodesic := True\<rparr>)))
        ''gstar_ij_tanbeta_mat'' = Some Expr
   \<and> attrs (final (init example_cas (default_config\<lparr>eta := 1 / 2, do_geodesic := True\<rparr>)))
        ''gstar_ij_tanalpha_mat'' = Some Expr
   \<and> attrs (final (init example_cas (default_config\<lparr>eta := 1 / 2, do_geodesic := True\<rparr>)))
        ''g_ij_mat'' = Some NoneV
   \<and> attrs (final (init example_cas (default_config\<lparr>eta := 1 / 2, do_geodesic := True\<rparr>)))
        ''g_ij_mat_lambdified'' = Some NoneV"
proof -
  let ?cfg = "default_config\<lparr>eta := 1 / 2, do_geodesic := True\<rparr>"
  have flags: "\<not> do_nothing ?cfg" "\<not> do_idtx ?cfg" "do_geodesic ?cfg"
    "do_raw ?cfg \<or> parameters ?cfg = None"
    "varphi_type ?cfg = ''ramp'' \<or> varphi_type ?cfg = ''ramp-flat''"
    "\<not> (eta ?cfg \<ge> 1 \<and> beta_type ?cfg = ''sin'')"
    by (simp_all add: default_config_def)
  have t: "find (\<lambda>r. real_at example_cas r 0 \<or> real_at example_cas r (1 / 100) \<or> real_at example_cas r 1)
        (tanbeta_solns example_cas) = Some ''(eta - sqrt(D) - 1)/(2*ta)''"
    by (simp add: example_cas_def)
  have p: "tanbeta_poly_solns example_cas
           = [''(eta - sqrt(D) - 1)/(2*ta)'', ''(eta + sqrt(D) - 1)/(2*ta)'']"
    by (simp add: example_cas_def)
  have "parameters ?cfg = None" by (simp add: default_config_def)
  with init_geodesic_without_parameters [OF flags t p] show ?thesis by simp
qed

end
